theory Spec2Isabelle
  imports Main "HOL-Library.Sublist"
begin

section \<open>Python values\<close>

text \<open>
  The script \<^verbatim>\<open>create_app.py\<close> handles three kinds of data: strings read from the
  environment, JSON documents decoded from HTTP responses, and JSON documents it builds as
  request bodies. A Python \<^verbatim>\<open>str\<close> is a \<open>string\<close>, one \<open>char\<close> per code point (code
  points below 256). A decoded JSON document is a value of \<open>json\<close>: \<^verbatim>\<open>None\<close>, a
  \<^verbatim>\<open>bool\<close>, an \<^verbatim>\<open>int\<close>, a \<^verbatim>\<open>float\<close> (held as the text Python prints for it; the script
  only formats and tests it), a \<^verbatim>\<open>str\<close>, a \<^verbatim>\<open>list\<close> or a \<^verbatim>\<open>dict\<close> with string keys
  (an association list in insertion order; a key that occurs twice is looked up at its first
  entry, and a decoded document has each key once).
\<close>

datatype json =
    JNull
  | JBool bool
  | JInt int
  | JFloat string
  | JStr string
  | JArr "json list"
  | JObj "(string \<times> json) list"

type_synonym dict = "(string \<times> json) list"

text \<open>An optional string of Python (\<^verbatim>\<open>os.environ.get\<close>) as a value.\<close>

definition of_opt :: "string option \<Rightarrow> json" where
  "of_opt v = (case v of None \<Rightarrow> JNull | Some s \<Rightarrow> JStr s)"

subsection \<open>Formatting: \<^verbatim>\<open>str\<close> and \<^verbatim>\<open>repr\<close>\<close>

definition digit_char :: "nat \<Rightarrow> char" where
  "digit_char n = ''0123456789'' ! (n mod 10)"

fun nat_digits :: "nat \<Rightarrow> string" where
  "nat_digits n =
     (if n < 10 then [digit_char n] else nat_digits (n div 10) @ [digit_char (n mod 10)])"

declare nat_digits.simps [simp del]

definition int_str :: "int \<Rightarrow> string" where
  "int_str i = (if i < 0 then CHR ''-'' # nat_digits (nat (- i)) else nat_digits (nat i))"

definition hex_char :: "nat \<Rightarrow> char" where
  "hex_char n = ''0123456789abcdef'' ! (n mod 16)"

definition printable :: "char \<Rightarrow> bool" where
  "printable c =
     (let n = (of_char c :: nat) in \<not> (n < 32 \<or> (127 \<le> n \<and> n \<le> 160) \<or> n = 173))"

definition escape_char :: "char \<Rightarrow> char \<Rightarrow> string" where
  "escape_char q c =
     (if c = q \<or> c = CHR 0x5C then [CHR 0x5C, c]
      else if c = CHR 0x09 then [CHR 0x5C, CHR ''t'']
      else if c = CHR 0x0A then [CHR 0x5C, CHR ''n'']
      else if c = CHR 0x0D then [CHR 0x5C, CHR ''r'']
      else if \<not> printable c then
        [CHR 0x5C, CHR ''x'', hex_char (of_char c div 16), hex_char (of_char c mod 16)]
      else [c])"

definition repr_str :: "string \<Rightarrow> string" where
  "repr_str s =
     (let q = (if CHR 0x27 \<in> set s \<and> CHR 0x22 \<notin> set s then CHR 0x22 else CHR 0x27)
      in q # concat (map (escape_char q) s) @ [q])"

fun join :: "string \<Rightarrow> string list \<Rightarrow> string" where
  "join sep [] = []"
| "join sep [x] = x"
| "join sep (x # y # ys) = x @ sep @ join sep (y # ys)"

fun py_repr :: "json \<Rightarrow> string" where
  "py_repr JNull = ''None''"
| "py_repr (JBool b) = (if b then ''True'' else ''False'')"
| "py_repr (JInt i) = int_str i"
| "py_repr (JFloat s) = s"
| "py_repr (JStr s) = repr_str s"
| "py_repr (JArr xs) = ''['' @ join '', '' (map py_repr xs) @ '']''"
| "py_repr (JObj kvs) =
     ''{'' @ join '', '' (map (\<lambda>(k, v). repr_str k @ '': '' @ py_repr v) kvs) @ ''}''"

text \<open>
  What an f-string puts in place of \<^verbatim>\<open>{x}\<close>: \<^verbatim>\<open>str(x)\<close>, which is the string itself for a
  string and the \<^verbatim>\<open>repr\<close> for every other value.
\<close>

definition py_str :: "json \<Rightarrow> string" where
  "py_str v = (case v of JStr s \<Rightarrow> s | _ \<Rightarrow> py_repr v)"

subsection \<open>Truth value, subscription, \<^verbatim>\<open>dict.get\<close>\<close>

datatype error =
    Exception_dict dict
  | Exception_str string
  | KeyError json
  | IndexError
  | TypeError
  | AttributeError
  | JSONDecodeError
  | LibraryError string

text \<open>
  \<open>Exception_dict\<close> and \<open>Exception_str\<close> are the script's own \<^verbatim>\<open>raise Exception(...)\<close>, with
  the dictionary or the message given to it. \<open>KeyError\<close>, \<open>IndexError\<close>, \<open>TypeError\<close> and
  \<open>AttributeError\<close> are raised by Python when a subscription or a method call does not fit the
  value. \<open>JSONDecodeError\<close> is raised by \<^verbatim>\<open>r.json()\<close>. \<open>LibraryError\<close> is any exception raised
  inside the token library or the HTTP library (a network failure, a rejected authority).
\<close>

definition truthy :: "json \<Rightarrow> bool" where
  "truthy v =
     (case v of
        JNull \<Rightarrow> False
      | JBool b \<Rightarrow> b
      | JInt i \<Rightarrow> i \<noteq> 0
      | JFloat s \<Rightarrow> s \<noteq> ''0.0'' \<and> s \<noteq> ''-0.0''
      | JStr s \<Rightarrow> s \<noteq> []
      | JArr xs \<Rightarrow> xs \<noteq> []
      | JObj kvs \<Rightarrow> kvs \<noteq> [])"

text \<open>\<^verbatim>\<open>v[key]\<close> with a string key.\<close>

definition getitem :: "json \<Rightarrow> string \<Rightarrow> error + json" where
  "getitem v k =
     (case v of
        JObj kvs \<Rightarrow> (case map_of kvs k of None \<Rightarrow> Inl (KeyError (JStr k)) | Some x \<Rightarrow> Inr x)
      | _ \<Rightarrow> Inl TypeError)"

text \<open>\<^verbatim>\<open>v[0]\<close>. The keys of a decoded JSON object are strings, so \<^verbatim>\<open>0\<close> is never one.\<close>

definition getitem0 :: "json \<Rightarrow> error + json" where
  "getitem0 v =
     (case v of
        JArr xs \<Rightarrow> (case xs of [] \<Rightarrow> Inl IndexError | x # _ \<Rightarrow> Inr x)
      | JStr s \<Rightarrow> (case s of [] \<Rightarrow> Inl IndexError | c # _ \<Rightarrow> Inr (JStr [c]))
      | JObj kvs \<Rightarrow> Inl (KeyError (JInt 0))
      | _ \<Rightarrow> Inl TypeError)"

text \<open>\<^verbatim>\<open>v.get(key, default)\<close>: only a \<^verbatim>\<open>dict\<close> has the method.\<close>

definition get_default :: "json \<Rightarrow> string \<Rightarrow> json \<Rightarrow> error + json" where
  "get_default v k d =
     (case v of
        JObj kvs \<Rightarrow> (case map_of kvs k of None \<Rightarrow> Inr d | Some x \<Rightarrow> Inr x)
      | _ \<Rightarrow> Inl AttributeError)"

section \<open>The outside world\<close>

text \<open>
  The script talks to two libraries: \<^verbatim>\<open>msal\<close>, which asks the identity provider for a
  token, and \<^verbatim>\<open>requests\<close>, which sends one HTTP request. Both are parameters of the model.
  What they answer may depend on everything that happened before, so they take the trace of
  the run so far. The script reads four things off a response: \<^verbatim>\<open>r.ok\<close>,
  \<^verbatim>\<open>r.status_code\<close>, \<^verbatim>\<open>r.text\<close> and \<^verbatim>\<open>r.json()\<close>, where \<open>None\<close> stands for the decoder
  raising.
\<close>

record token_request =
  client_id :: json
  client_credential :: json
  authority :: string
  scopes :: "string list"

record request =
  http_method :: string
  url :: string
  headers :: "(string \<times> string) list"
  json_payload :: "json option"
  params :: "(string \<times> string) list option"

record response =
  ok :: bool
  status_code :: int
  rtext :: string
  json_body :: "json option"

datatype message =
    ApplicationCreated json
  | ClientSecret json
  | ServicePrincipalCreated json
  | OwnerAdded string json
  | OwnerSkipped
  | PermissionsAdded
  | NotesUpdated

datatype event =
    Token token_request
  | Http request
  | Print message

type_synonym trace = "event list"

record world =
  environ :: "string \<Rightarrow> string option"
  acquire_token_for_client :: "trace \<Rightarrow> token_request \<Rightarrow> error + dict"
  requests_request :: "trace \<Rightarrow> request \<Rightarrow> error + response"

text \<open>
  A step of the script runs in a world, from the trace so far, and gives a value or the
  exception it raised, with the trace extended by what it did.
\<close>

type_synonym 'a io = "world \<Rightarrow> trace \<Rightarrow> (error + 'a) \<times> trace"

definition io_return :: "'a \<Rightarrow> 'a io" where
  "io_return x = (\<lambda>w tr. (Inr x, tr))"

definition io_raise :: "error \<Rightarrow> 'a io" where
  "io_raise e = (\<lambda>w tr. (Inl e, tr))"

definition io_lift :: "error + 'a \<Rightarrow> 'a io" where
  "io_lift r = (\<lambda>w tr. (r, tr))"

definition io_bind :: "'a io \<Rightarrow> ('a \<Rightarrow> 'b io) \<Rightarrow> 'b io" where
  "io_bind m f =
     (\<lambda>w tr. case m w tr of (Inl e, tr') \<Rightarrow> (Inl e, tr') | (Inr x, tr') \<Rightarrow> f x w tr')"

definition print :: "message \<Rightarrow> unit io" where
  "print m = (\<lambda>w tr. (Inr (), tr @ [Print m]))"

definition http_requests :: "trace \<Rightarrow> request list" where
  "http_requests tr = concat (map (\<lambda>e. case e of Http r \<Rightarrow> [r] | _ \<Rightarrow> []) tr)"

section \<open>Helpers\<close>

definition GRAPH_SCOPE :: "string list" where
  "GRAPH_SCOPE = [''https://graph.microsoft.com/.default'']"

definition GRAPH_BASE :: string where
  "GRAPH_BASE = ''https://graph.microsoft.com/v1.0''"

definition confidential_client :: "world \<Rightarrow> token_request" where
  "confidential_client w =
     \<lparr>client_id = of_opt (environ w ''CLIENT_ID''),
      client_credential = of_opt (environ w ''CLIENT_SECRET''),
      authority = ''https://login.microsoftonline.com/''
                  @ py_str (of_opt (environ w ''TENANT_ID'')),
      scopes = GRAPH_SCOPE\<rparr>"

definition get_token :: "json io" where
  "get_token = (\<lambda>w tr.
     let app = confidential_client w;
         tr' = tr @ [Token app]
     in case acquire_token_for_client w tr app of
          Inl e \<Rightarrow> (Inl e, tr')
        | Inr resp \<Rightarrow>
            (case map_of resp ''access_token'' of
               None \<Rightarrow> (Inl (Exception_dict resp), tr')
             | Some t \<Rightarrow> (Inr t, tr')))"

definition bearer_headers :: "json \<Rightarrow> (string \<times> string) list" where
  "bearer_headers token =
     [(''Authorization'', ''Bearer '' @ py_str token), (''Content-Type'', ''application/json'')]"

definition send :: "request \<Rightarrow> response io" where
  "send rq = (\<lambda>w tr. (requests_request w tr rq, tr @ [Http rq]))"

definition graph_call ::
  "string \<Rightarrow> string \<Rightarrow> json option \<Rightarrow> (string \<times> string) list option \<Rightarrow> json io" where
  "graph_call meth endpoint payload prms =
     io_bind get_token (\<lambda>token.
     let u = GRAPH_BASE @ endpoint;
         hs = bearer_headers token
     in io_bind (send \<lparr>http_method = meth, url = u, headers = hs,
                        json_payload = payload, params = prms\<rparr>) (\<lambda>r.
        if \<not> ok r then
          io_raise (Exception_str
            (meth @ '' '' @ u @ '' failed: '' @ int_str (status_code r) @ '' '' @ rtext r))
        else if rtext r \<noteq> [] then
          (case json_body r of None \<Rightarrow> io_raise JSONDecodeError | Some v \<Rightarrow> io_return v)
        else io_return (JObj [])))"

section \<open>Actions\<close>

definition create_app :: "json \<Rightarrow> string list \<Rightarrow> json \<Rightarrow> json io" where
  "create_app display_name redirect_uris notes_text =
     (let body = JObj [(''displayName'', display_name),
                       (''signInAudience'', JStr ''AzureADMyOrg''),
                       (''web'', JObj [(''redirectUris'', JArr (map JStr redirect_uris))]),
                       (''notes'', notes_text)]
      in graph_call ''POST'' ''/applications'' (Some body) None)"

definition add_secret :: "json \<Rightarrow> json io" where
  "add_secret app_object_id =
     io_bind get_token (\<lambda>token.
     let u = GRAPH_BASE @ ''/applications/'' @ py_str app_object_id @ ''/addPassword'';
         body = JObj [(''passwordCredential'', JObj [(''displayName'', JStr ''auto-secret'')])]
     in io_bind (send \<lparr>http_method = ''POST'', url = u, headers = bearer_headers token,
                        json_payload = Some body, params = None\<rparr>) (\<lambda>r.
        if \<not> ok r then io_raise (Exception_str (rtext r))
        else (case json_body r of None \<Rightarrow> io_raise JSONDecodeError | Some v \<Rightarrow> io_return v)))"

definition create_service_principal :: "json \<Rightarrow> json io" where
  "create_service_principal appid =
     graph_call ''POST'' ''/servicePrincipals''
       (Some (JObj [(''appId'', appid), (''accountEnabled'', JBool True)])) None"

definition user_filter :: "json \<Rightarrow> string" where
  "user_filter mailnickname = ''mailNickname eq '' @ [CHR 0x27] @ py_str mailnickname @ [CHR 0x27]"

definition resolve_user_by_mailnickname :: "json \<Rightarrow> json io" where
  "resolve_user_by_mailnickname mailnickname =
     (let prms = [(''$filter'', user_filter mailnickname),
                  (''$select'', ''id,displayName,mailNickname'')]
      in io_bind (graph_call ''GET'' ''/users'' None (Some prms)) (\<lambda>result.
         io_bind (io_lift (get_default result ''value'' (JArr []))) (\<lambda>users.
         if \<not> truthy users then
           io_raise (Exception_str (''No user found with mailNickname='' @ [CHR 0x27]
                                    @ py_str mailnickname @ [CHR 0x27]))
         else
           io_bind (io_lift (getitem0 users)) (\<lambda>first.
           io_lift (getitem first ''id'')))))"

definition add_owner :: "json \<Rightarrow> json \<Rightarrow> json io" where
  "add_owner app_object_id owner_object_id =
     (let body = JObj [(''@odata.id'',
                        JStr (GRAPH_BASE @ ''/directoryObjects/'' @ py_str owner_object_id))]
      in graph_call ''POST'' (''/applications/'' @ py_str app_object_id @ ''/owners/$ref'')
           (Some body) None)"

definition permissions :: "json list" where
  "permissions =
     [JObj [(''id'', JStr ''df021288-bdef-4463-88db-98f22de89214''), (''type'', JStr ''Role'')],
      JObj [(''id'', JStr ''e1fe6dd8-ba31-4d61-89e7-88639da4683d''), (''type'', JStr ''Scope'')]]"

definition add_api_permissions :: "json \<Rightarrow> json io" where
  "add_api_permissions app_object_id =
     (let body = JObj [(''requiredResourceAccess'',
                        JArr [JObj [(''resourceAppId'',
                                     JStr ''00000003-0000-0000-c000-000000000000''),
                                    (''resourceAccess'', JArr permissions)]])]
      in graph_call ''PATCH'' (''/applications/'' @ py_str app_object_id) (Some body) None)"

definition update_internal_notes :: "json \<Rightarrow> json \<Rightarrow> json io" where
  "update_internal_notes app_object_id notes =
     (let body = JObj [(''notes'', notes)]
      in graph_call ''PATCH'' (''/applications/'' @ py_str app_object_id) (Some body) None)"

section \<open>Main\<close>

text \<open>
  \<^verbatim>\<open>str.isspace\<close> on one character, \<^verbatim>\<open>str.strip()\<close> and \<^verbatim>\<open>str.split(sep)\<close> with a separator
  of one character. The split scans the string once, closing a piece at every separator.
\<close>

definition isspace :: "char \<Rightarrow> bool" where
  "isspace c =
     (let n = (of_char c :: nat)
      in (9 \<le> n \<and> n \<le> 13) \<or> (28 \<le> n \<and> n \<le> 32) \<or> n = 133 \<or> n = 160)"

definition strip :: "string \<Rightarrow> string" where
  "strip s = rev (dropWhile isspace (rev (dropWhile isspace s)))"

fun split_acc :: "char \<Rightarrow> string \<Rightarrow> string \<Rightarrow> string list" where
  "split_acc sep acc [] = [rev acc]"
| "split_acc sep acc (c # cs) =
     (if c = sep then rev acc # split_acc sep [] cs else split_acc sep (c # acc) cs)"

definition split :: "char \<Rightarrow> string \<Rightarrow> string list" where
  "split sep s = split_acc sep [] s"

definition redirect_uris_list :: "world \<Rightarrow> string list" where
  "redirect_uris_list w =
     (let redirect_uris = (case environ w ''REDIRECT_URIS'' of None \<Rightarrow> [] | Some s \<Rightarrow> s)
      in map strip (filter (\<lambda>u. strip u \<noteq> []) (split CHR '','' redirect_uris)))"

text \<open>
  The script proper is six blocks, each under its own comment in the source
  (\<^verbatim>\<open># Create App\<close>, \<^verbatim>\<open># Add Secret\<close>, ...), run one after the other; an exception in a
  block ends the run. Only \<^verbatim>\<open>app\<close> is used beyond the block that binds it.
\<close>

definition main_create_app :: "json io" where
  "main_create_app = (\<lambda>w.
     let display_name = of_opt (environ w ''APP_DISPLAY_NAME'');
         NOTES_TEXT = of_opt (environ w ''NOTES_TEXT'')
     in
      (io_bind (create_app display_name (redirect_uris_list w) NOTES_TEXT) (\<lambda>app.
       io_bind (io_lift (getitem app ''appId'')) (\<lambda>client.
       io_bind (print (ApplicationCreated client)) (\<lambda>_.
       io_return app)))) w)"

definition main_add_secret :: "json \<Rightarrow> unit io" where
  "main_add_secret app =
     io_bind (io_lift (getitem app ''id'')) (\<lambda>oid.
     io_bind (add_secret oid) (\<lambda>secret.
     io_bind (io_lift (getitem secret ''secretText'')) (\<lambda>secret_text.
     print (ClientSecret secret_text))))"

definition main_create_service_principal :: "json \<Rightarrow> unit io" where
  "main_create_service_principal app =
     io_bind (io_lift (getitem app ''appId'')) (\<lambda>client.
     io_bind (create_service_principal client) (\<lambda>sp.
     io_bind (io_lift (getitem sp ''id'')) (\<lambda>sp_id.
     print (ServicePrincipalCreated sp_id))))"

definition main_resolve_and_add_owner :: "json \<Rightarrow> unit io" where
  "main_resolve_and_add_owner app = (\<lambda>w.
     let OWNER_MAILNICKNAME = of_opt (environ w ''OWNER_MAILNICKNAME'')
     in
      (if truthy OWNER_MAILNICKNAME then
         io_bind (resolve_user_by_mailnickname OWNER_MAILNICKNAME) (\<lambda>owner_id.
         io_bind (io_lift (getitem app ''id'')) (\<lambda>oid.
         io_bind (add_owner oid owner_id) (\<lambda>_.
         print (OwnerAdded (py_str OWNER_MAILNICKNAME) owner_id))))
       else print OwnerSkipped) w)"

definition main_add_api_permissions :: "json \<Rightarrow> unit io" where
  "main_add_api_permissions app =
     io_bind (io_lift (getitem app ''id'')) (\<lambda>oid.
     io_bind (add_api_permissions oid) (\<lambda>_.
     print PermissionsAdded))"

definition main_update_internal_notes :: "json \<Rightarrow> unit io" where
  "main_update_internal_notes app =
     io_bind (io_lift (getitem app ''id'')) (\<lambda>oid.
     io_bind (update_internal_notes oid (JStr ''Updated notes: now managed by CloudOps''))
       (\<lambda>_.
     print NotesUpdated))"

definition main :: "unit io" where
  "main =
     io_bind main_create_app (\<lambda>app.
     io_bind (main_add_secret app) (\<lambda>_.
     io_bind (main_create_service_principal app) (\<lambda>_.
     io_bind (main_resolve_and_add_owner app) (\<lambda>_.
     io_bind (main_add_api_permissions app) (\<lambda>_.
     main_update_internal_notes app)))))"

section \<open>A directory that answers\<close>

text \<open>
  Worlds to run the script in: an environment, a token endpoint that grants a token, and a
  directory that answers each of the script's requests the way the Graph API does (a created
  application with object id \<open>obj-1\<close> and client id \<open>cli-1\<close>, one user \<open>u-123\<close> for the alias
  \<open>jdoe\<close>, an empty body for the reference link and the two updates).
\<close>

definition demo_environ :: "string \<Rightarrow> string option" where
  "demo_environ =
     map_of [(''TENANT_ID'', ''tenant-1''), (''CLIENT_ID'', ''mgmt-app''),
             (''CLIENT_SECRET'', ''mgmt-secret''), (''APP_DISPLAY_NAME'', ''demo-app''),
             (''REDIRECT_URIS'', '' https://a.example/cb , ,https://b.example/cb''),
             (''NOTES_TEXT'', ''notes of the caller''), (''OWNER_MAILNICKNAME'', ''jdoe'')]"

definition demo_token :: "trace \<Rightarrow> token_request \<Rightarrow> error + dict" where
  "demo_token tr app = Inr [(''token_type'', JStr ''Bearer''), (''access_token'', JStr ''tok'')]"

definition denied_token :: "trace \<Rightarrow> token_request \<Rightarrow> error + dict" where
  "denied_token tr app = Inr [(''error'', JStr ''invalid_client'')]"

definition answer :: "int \<Rightarrow> string \<Rightarrow> json option \<Rightarrow> error + response" where
  "answer code body decoded =
     Inr \<lparr>ok = (code < 400), status_code = code, rtext = body, json_body = decoded\<rparr>"

definition demo_directory :: "json \<Rightarrow> trace \<Rightarrow> request \<Rightarrow> error + response" where
  "demo_directory users tr rq =
     (if http_method rq = ''POST'' \<and> url rq = GRAPH_BASE @ ''/applications'' then
        answer 201 ''{id: obj-1, appId: cli-1}''
          (Some (JObj [(''id'', JStr ''obj-1''), (''appId'', JStr ''cli-1'')]))
      else if http_method rq = ''POST'' \<and> url rq = GRAPH_BASE @ ''/applications/obj-1/addPassword'' then
        answer 200 ''{secretText: s3cret}'' (Some (JObj [(''secretText'', JStr ''s3cret'')]))
      else if http_method rq = ''POST'' \<and> url rq = GRAPH_BASE @ ''/servicePrincipals'' then
        answer 201 ''{id: sp-1}'' (Some (JObj [(''id'', JStr ''sp-1'')]))
      else if http_method rq = ''GET'' \<and> url rq = GRAPH_BASE @ ''/users'' then
        answer 200 ''{value: ...}'' (Some (JObj [(''value'', users)]))
      else if http_method rq = ''POST'' \<and> url rq = GRAPH_BASE @ ''/applications/obj-1/owners/$ref'' then
        answer 204 [] None
      else if http_method rq = ''PATCH'' \<and> url rq = GRAPH_BASE @ ''/applications/obj-1'' then
        answer 204 [] None
      else answer 404 ''not found'' None)"

definition one_user :: json where
  "one_user = JArr [JObj [(''id'', JStr ''u-123''), (''displayName'', JStr ''J. Doe''),
                          (''mailNickname'', JStr ''jdoe'')]]"

definition demo_world :: world where
  "demo_world = \<lparr>environ = demo_environ, acquire_token_for_client = demo_token,
                 requests_request = demo_directory one_user\<rparr>"

definition no_owner_world :: world where
  "no_owner_world = demo_world\<lparr>environ := demo_environ(''OWNER_MAILNICKNAME'' := None)\<rparr>"

definition no_user_world :: world where
  "no_user_world = demo_world\<lparr>requests_request := demo_directory (JArr [])\<rparr>"

definition denied_world :: world where
  "denied_world = demo_world\<lparr>acquire_token_for_client := denied_token\<rparr>"

section \<open>What a run did\<close>

text \<open>
  \<open>emits w Q m\<close>: from any trace, the step \<open>m\<close> run in the world \<open>w\<close> only adds to the trace,
  and every HTTP request it adds satisfies \<open>Q\<close>. The requests of the owner block are told
  from the others by their method and URL.
\<close>

definition emits :: "world \<Rightarrow> (request \<Rightarrow> bool) \<Rightarrow> 'a io \<Rightarrow> bool" where
  "emits w Q m = (\<forall>tr. \<exists>evs. snd (m w tr) = tr @ evs \<and> list_all Q (http_requests evs))"

definition is_resolve_owner :: "request \<Rightarrow> bool" where
  "is_resolve_owner r = (http_method r = ''GET'')"

definition is_add_owner :: "request \<Rightarrow> bool" where
  "is_add_owner r = (http_method r = ''POST'' \<and> suffix ''/owners/$ref'' (url r))"

definition is_add_secret :: "request \<Rightarrow> bool" where
  "is_add_secret r = (http_method r = ''POST'' \<and> suffix ''/addPassword'' (url r))"

definition sets_permissions :: "request \<Rightarrow> bool" where
  "sets_permissions r =
     (case json_payload r of
        Some (JObj kvs) \<Rightarrow> map_of kvs ''requiredResourceAccess'' \<noteq> None
      | _ \<Rightarrow> False)"

definition updates_notes :: "request \<Rightarrow> bool" where
  "updates_notes r =
     (http_method r = ''PATCH'' \<and>
      (case json_payload r of
         Some (JObj kvs) \<Rightarrow> map_of kvs ''notes'' \<noteq> None
       | _ \<Rightarrow> False))"

text \<open>A directory that answers every request with a success and no body.\<close>

definition silent_directory :: "trace \<Rightarrow> request \<Rightarrow> error + response" where
  "silent_directory tr rq = answer 204 [] None"

definition silent_world :: world where
  "silent_world = demo_world\<lparr>requests_request := silent_directory\<rparr>"

text \<open>
  The configuration of redirect URIs in the words of its description: the pieces of a
  string split on commas are the one non-empty list of comma-free strings that gives the
  string back when joined with commas; each piece is trimmed, and the pieces that are empty
  after trimming are discarded.
\<close>

definition is_comma_split :: "string \<Rightarrow> string list \<Rightarrow> bool" where
  "is_comma_split s ps = (ps \<noteq> [] \<and> join '','' ps = s \<and> list_all (\<lambda>p. CHR '','' \<notin> set p) ps)"

definition trimmed_nonempty :: "string list \<Rightarrow> string list" where
  "trimmed_nonempty ps = filter (\<lambda>p. p \<noteq> []) (map strip ps)"

section \<open>Running a step\<close>

lemma io_bind_Inl: "m w tr = (Inl e, tr1) \<Longrightarrow> io_bind m f w tr = (Inl e, tr1)"
  by (simp add: io_bind_def)

lemma io_bind_Inr: "m w tr = (Inr x, tr1) \<Longrightarrow> io_bind m f w tr = f x w tr1"
  by (simp add: io_bind_def)

lemma get_token_trace: "snd (get_token w tr) = tr @ [Token (confidential_client w)]"
  by (simp add: get_token_def Let_def split: sum.splits option.splits)

lemma get_token_eq:
  "get_token w tr = (res, tr1) \<Longrightarrow> tr1 = tr @ [Token (confidential_client w)]"
  using get_token_trace [of w tr] by simp

lemma demo_token_granted:
  "get_token demo_world tr = (Inr (JStr ''tok''), tr @ [Token (confidential_client demo_world)])"
  by (simp add: get_token_def demo_world_def demo_token_def)

section \<open>The gateway\<close>

text \<open>
  C7. A call through the gateway that got its token and an answer \<open>r\<close> to its request: when
  \<open>r\<close> is not a success, it raises an exception whose message holds the method, the full
  URL, the status code and the body text; when \<open>r\<close> is a success with a body, it gives what
  \<^verbatim>\<open>r.json()\<close> gives (the decoded body, or the decoder's exception when the body does not
  decode); when \<open>r\<close> is a success with an empty body, it gives the empty dictionary. In each
  case exactly that one request was sent.
\<close>

theorem graph_call_contract:
  assumes tok: "get_token w tr = (Inr token, tr1)"
    and rq: "rq = \<lparr>http_method = meth, url = GRAPH_BASE @ endpoint, headers = bearer_headers token,
                    json_payload = payload, params = prms\<rparr>"
    and resp: "requests_request w tr1 rq = Inr r"
  shows "(\<not> ok r \<longrightarrow>
            graph_call meth endpoint payload prms w tr =
              (Inl (Exception_str (meth @ '' '' @ (GRAPH_BASE @ endpoint) @ '' failed: ''
                                   @ int_str (status_code r) @ '' '' @ rtext r)),
               tr1 @ [Http rq]))
       \<and> (ok r \<and> rtext r \<noteq> [] \<longrightarrow>
            graph_call meth endpoint payload prms w tr =
              ((case json_body r of Some v \<Rightarrow> Inr v | None \<Rightarrow> Inl JSONDecodeError),
               tr1 @ [Http rq]))
       \<and> (ok r \<and> rtext r = [] \<longrightarrow>
            graph_call meth endpoint payload prms w tr = (Inr (JObj []), tr1 @ [Http rq]))"
  using assms
  by (simp add: graph_call_def io_bind_def send_def io_raise_def io_return_def Let_def
      split: option.splits)

theorem graph_call_contract_witness:
  "graph_call ''POST'' ''/servicePrincipals'' None None demo_world [] =
     (Inr (JObj [(''id'', JStr ''sp-1'')]),
      [Token (confidential_client demo_world),
       Http \<lparr>http_method = ''POST'', url = GRAPH_BASE @ ''/servicePrincipals'',
             headers = bearer_headers (JStr ''tok''), json_payload = None, params = None\<rparr>])
   \<and> graph_call ''PATCH'' ''/applications/obj-1'' None None demo_world [] =
     (Inr (JObj []),
      [Token (confidential_client demo_world),
       Http \<lparr>http_method = ''PATCH'', url = GRAPH_BASE @ ''/applications/obj-1'',
             headers = bearer_headers (JStr ''tok''), json_payload = None, params = None\<rparr>])
   \<and> graph_call ''GET'' ''/me'' None None demo_world [] =
     (Inl (Exception_str ''GET https://graph.microsoft.com/v1.0/me failed: 404 not found''),
      [Token (confidential_client demo_world),
       Http \<lparr>http_method = ''GET'', url = GRAPH_BASE @ ''/me'',
             headers = bearer_headers (JStr ''tok''), json_payload = None, params = None\<rparr>])"
proof -
  let ?tr1 = "[Token (confidential_client demo_world)]"
  let ?rq1 = "\<lparr>http_method = ''POST'', url = GRAPH_BASE @ ''/servicePrincipals'',
             headers = bearer_headers (JStr ''tok''), json_payload = None, params = None\<rparr>"
  let ?r1 = "\<lparr>ok = True, status_code = 201, rtext = ''{id: sp-1}'',
             json_body = Some (JObj [(''id'', JStr ''sp-1'')])\<rparr>"
  let ?rq2 = "\<lparr>http_method = ''PATCH'', url = GRAPH_BASE @ ''/applications/obj-1'',
             headers = bearer_headers (JStr ''tok''), json_payload = None, params = None\<rparr>"
  let ?r2 = "\<lparr>ok = True, status_code = 204, rtext = [], json_body = None\<rparr>"
  let ?rq3 = "\<lparr>http_method = ''GET'', url = GRAPH_BASE @ ''/me'',
             headers = bearer_headers (JStr ''tok''), json_payload = None, params = None\<rparr>"
  let ?r3 = "\<lparr>ok = False, status_code = 404, rtext = ''not found'', json_body = None\<rparr>"
  have tok: "get_token demo_world [] = (Inr (JStr ''tok''), ?tr1)"
    using demo_token_granted [of "[]"] by simp
  have resp1: "requests_request demo_world ?tr1 ?rq1 = Inr ?r1"
    by (simp add: demo_world_def demo_directory_def answer_def GRAPH_BASE_def)
  have resp2: "requests_request demo_world ?tr1 ?rq2 = Inr ?r2"
    by (simp add: demo_world_def demo_directory_def answer_def GRAPH_BASE_def)
  have resp3: "requests_request demo_world ?tr1 ?rq3 = Inr ?r3"
    by (simp add: demo_world_def demo_directory_def answer_def GRAPH_BASE_def)
  have digits: "int_str 404 = ''404''"
    by (simp add: int_str_def nat_digits.simps digit_char_def)
  show ?thesis
    using graph_call_contract [OF tok refl resp1] graph_call_contract [OF tok refl resp2]
      graph_call_contract [OF tok refl resp3] digits
    by (simp add: GRAPH_BASE_def)
qed

section \<open>Steps only add to the trace\<close>

lemma http_requests_simps [simp]:
  "http_requests [] = []"
  "http_requests (Http r # tr) = r # http_requests tr"
  "http_requests (Token t # tr) = http_requests tr"
  "http_requests (Print m # tr) = http_requests tr"
  "http_requests (tr @ tr') = http_requests tr @ http_requests tr'"
  by (simp_all add: http_requests_def)

lemma emitsI:
  "(\<And>tr. \<exists>evs. snd (m w tr) = tr @ evs \<and> list_all Q (http_requests evs)) \<Longrightarrow> emits w Q m"
  by (simp add: emits_def)

lemma emitsD:
  "emits w Q m \<Longrightarrow> \<exists>evs. snd (m w tr) = tr @ evs \<and> list_all Q (http_requests evs)"
  by (simp add: emits_def)

lemma emits_return [intro!, simp]: "emits w Q (io_return x)"
  by (simp add: emits_def io_return_def)

lemma emits_raise [intro!, simp]: "emits w Q (io_raise e)"
  by (simp add: emits_def io_raise_def)

lemma emits_lift [intro!, simp]: "emits w Q (io_lift r)"
  by (simp add: emits_def io_lift_def)

lemma emits_print [intro!, simp]: "emits w Q (print m)"
  by (simp add: emits_def print_def)

lemma emits_get_token [intro!, simp]: "emits w Q get_token"
  by (simp add: emits_def get_token_trace)

lemma emits_send: "Q rq \<Longrightarrow> emits w Q (send rq)"
  by (simp add: emits_def send_def)

lemma emits_bind:
  assumes m: "emits w Q m" and f: "\<And>x. emits w Q (f x)"
  shows "emits w Q (io_bind m f)"
proof (rule emitsI)
  fix tr
  obtain evs where evs: "snd (m w tr) = tr @ evs" "list_all Q (http_requests evs)"
    using emitsD [OF m] by blast
  show "\<exists>evs. snd (io_bind m f w tr) = tr @ evs \<and> list_all Q (http_requests evs)"
  proof (cases "fst (m w tr)")
    case (Inl e)
    then have "io_bind m f w tr = (Inl e, tr @ evs)"
      using evs(1) by (intro io_bind_Inl) (simp add: prod_eq_iff)
    then show ?thesis using evs(2) by auto
  next
    case (Inr x)
    then have eq: "io_bind m f w tr = f x w (tr @ evs)"
      using evs(1) io_bind_Inr [of m w tr x "tr @ evs" f] by (simp add: prod_eq_iff)
    obtain evs' where evs': "snd (f x w (tr @ evs)) = (tr @ evs) @ evs'"
        "list_all Q (http_requests evs')"
      using emitsD [OF f] by blast
    have "snd (io_bind m f w tr) = tr @ (evs @ evs')"
      using eq evs'(1) by simp
    moreover have "list_all Q (http_requests (evs @ evs'))"
      using evs(2) evs'(2) by simp
    ultimately show ?thesis by blast
  qed
qed

lemma emits_graph_call:
  assumes "\<And>token. Q \<lparr>http_method = meth, url = GRAPH_BASE @ endpoint,
                        headers = bearer_headers token, json_payload = payload, params = prms\<rparr>"
  shows "emits w Q (graph_call meth endpoint payload prms)"
  unfolding graph_call_def Let_def
  by (intro emits_bind emits_get_token emits_send assms)
     (auto split: option.splits)

lemma emits_add_secret:
  assumes "\<And>token. Q \<lparr>http_method = ''POST'',
       url = GRAPH_BASE @ ''/applications/'' @ py_str oid @ ''/addPassword'',
       headers = bearer_headers token,
       json_payload = Some (JObj [(''passwordCredential'',
                                   JObj [(''displayName'', JStr ''auto-secret'')])]),
       params = None\<rparr>"
  shows "emits w Q (add_secret oid)"
  unfolding add_secret_def Let_def
  by (intro emits_bind emits_get_token emits_send assms)
     (auto split: option.splits)

lemma emits_world: "emits w Q (f w) \<Longrightarrow> emits w Q (\<lambda>w'. f w' w')"
  by (simp add: emits_def)

lemma emits_if: "emits w Q a \<Longrightarrow> emits w Q b \<Longrightarrow> emits w Q (if c then a else b)"
  by simp

lemma graph_call_granted:
  "get_token w tr = (Inr tok, tr1) \<Longrightarrow>
   snd (graph_call meth endpoint payload prms w tr) =
     tr1 @ [Http \<lparr>http_method = meth, url = GRAPH_BASE @ endpoint,
                  headers = bearer_headers tok, json_payload = payload, params = prms\<rparr>]"
  by (simp add: graph_call_def io_bind_def send_def io_raise_def io_return_def Let_def
      split: option.splits sum.splits)

lemma graph_call_refused:
  "get_token w tr = (Inl e, tr1) \<Longrightarrow> graph_call meth endpoint payload prms w tr = (Inl e, tr1)"
  by (simp add: graph_call_def io_bind_def)

section \<open>Token acquisition\<close>

lemma get_token_no_access_token:
  assumes "acquire_token_for_client w tr (confidential_client w) = Inr resp"
    and "''access_token'' \<notin> fst ` set resp"
  shows "get_token w tr = (Inl (Exception_dict resp), tr @ [Token (confidential_client w)])"
  using assms by (simp add: get_token_def Let_def map_of_eq_None_iff [THEN iffD2])

text \<open>
  C5. When the token provider answers without an access token, \<open>get_token\<close> raises an
  exception carrying that answer, and so does every call through the gateway and the
  secret request, each having asked for the token and sent nothing. A run whose first token
  request is answered so ends there: its trace is the one token request, with no HTTP
  request at all.
\<close>

theorem token_refused_no_request:
  assumes resp: "acquire_token_for_client w tr (confidential_client w) = Inr resp"
    and missing: "''access_token'' \<notin> fst ` set resp"
  shows "get_token w tr = (Inl (Exception_dict resp), tr @ [Token (confidential_client w)])
       \<and> graph_call meth endpoint payload prms w tr =
           (Inl (Exception_dict resp), tr @ [Token (confidential_client w)])
       \<and> add_secret oid w tr = (Inl (Exception_dict resp), tr @ [Token (confidential_client w)])
       \<and> (tr = [] \<longrightarrow>
            main w [] = (Inl (Exception_dict resp), [Token (confidential_client w)])
          \<and> http_requests (snd (main w [])) = [])"
proof -
  have tok: "get_token w tr = (Inl (Exception_dict resp), tr @ [Token (confidential_client w)])"
    using resp missing by (rule get_token_no_access_token)
  have gw: "graph_call m e p q w tr =
      (Inl (Exception_dict resp), tr @ [Token (confidential_client w)])" for m e p q
    using tok by (rule graph_call_refused)
  have sec: "add_secret oid w tr =
      (Inl (Exception_dict resp), tr @ [Token (confidential_client w)])"
    unfolding add_secret_def using tok by (rule io_bind_Inl)
  have run: "main w [] = (Inl (Exception_dict resp), [Token (confidential_client w)])"
    if "tr = []"
  proof -
    have "create_app d u n w [] = (Inl (Exception_dict resp), [Token (confidential_client w)])"
      for d u n
      unfolding create_app_def Let_def using gw that by simp
    then have "main_create_app w [] =
        (Inl (Exception_dict resp), [Token (confidential_client w)])"
      unfolding main_create_app_def Let_def by (rule io_bind_Inl)
    then show ?thesis
      unfolding main_def by (rule io_bind_Inl)
  qed
  show ?thesis
    using tok gw sec run by simp
qed

theorem token_refused_no_request_witness:
  "main denied_world [] =
     (Inl (Exception_dict [(''error'', JStr ''invalid_client'')]),
      [Token (confidential_client denied_world)])
   \<and> http_requests (snd (main denied_world [])) = []"
proof -
  have resp: "acquire_token_for_client denied_world [] (confidential_client denied_world)
      = Inr [(''error'', JStr ''invalid_client'')]"
    by (simp add: denied_world_def demo_world_def denied_token_def)
  have missing: "''access_token'' \<notin> fst ` set [(''error'', JStr ''invalid_client'')]"
    by simp
  show ?thesis
    using token_refused_no_request [OF resp missing] by simp
qed

section \<open>The requests of a run\<close>

lemma emits_run: "emits w Q m \<Longrightarrow> list_all Q (http_requests (snd (m w [])))"
  using emitsD [of w Q m "[]"] by auto

lemma emits_main_requests:
  assumes create: "\<And>tok. Q \<lparr>http_method = ''POST'', url = GRAPH_BASE @ ''/applications'',
         headers = bearer_headers tok,
         json_payload = Some (JObj [(''displayName'', of_opt (environ w ''APP_DISPLAY_NAME'')),
                       (''signInAudience'', JStr ''AzureADMyOrg''),
                       (''web'', JObj [(''redirectUris'', JArr (map JStr (redirect_uris_list w)))]),
                       (''notes'', of_opt (environ w ''NOTES_TEXT''))]),
         params = None\<rparr>"
    and secret: "\<And>tok oid. Q \<lparr>http_method = ''POST'',
         url = GRAPH_BASE @ ''/applications/'' @ py_str oid @ ''/addPassword'',
         headers = bearer_headers tok,
         json_payload = Some (JObj [(''passwordCredential'',
                                     JObj [(''displayName'', JStr ''auto-secret'')])]),
         params = None\<rparr>"
    and sp: "\<And>tok c. Q \<lparr>http_method = ''POST'', url = GRAPH_BASE @ ''/servicePrincipals'',
         headers = bearer_headers tok,
         json_payload = Some (JObj [(''appId'', c), (''accountEnabled'', JBool True)]),
         params = None\<rparr>"
    and resolve: "\<And>tok. truthy (of_opt (environ w ''OWNER_MAILNICKNAME'')) \<Longrightarrow>
       Q \<lparr>http_method = ''GET'', url = GRAPH_BASE @ ''/users'',
         headers = bearer_headers tok, json_payload = None,
         params = Some [(''$filter'', user_filter (of_opt (environ w ''OWNER_MAILNICKNAME''))),
                        (''$select'', ''id,displayName,mailNickname'')]\<rparr>"
    and owner: "\<And>tok oid u. truthy (of_opt (environ w ''OWNER_MAILNICKNAME'')) \<Longrightarrow>
       Q \<lparr>http_method = ''POST'',
         url = GRAPH_BASE @ ''/applications/'' @ py_str oid @ ''/owners/$ref'',
         headers = bearer_headers tok,
         json_payload = Some (JObj [(''@odata.id'',
                          JStr (GRAPH_BASE @ ''/directoryObjects/'' @ py_str u))]),
         params = None\<rparr>"
    and perms: "\<And>tok oid. Q \<lparr>http_method = ''PATCH'',
         url = GRAPH_BASE @ ''/applications/'' @ py_str oid,
         headers = bearer_headers tok,
         json_payload = Some (JObj [(''requiredResourceAccess'',
                        JArr [JObj [(''resourceAppId'',
                                     JStr ''00000003-0000-0000-c000-000000000000''),
                                    (''resourceAccess'', JArr permissions)]])]),
         params = None\<rparr>"
    and note_upd: "\<And>tok oid. Q \<lparr>http_method = ''PATCH'',
         url = GRAPH_BASE @ ''/applications/'' @ py_str oid,
         headers = bearer_headers tok,
         json_payload = Some (JObj [(''notes'', JStr ''Updated notes: now managed by CloudOps'')]),
         params = None\<rparr>"
  shows "emits w Q main"
proof -
  have 1: "emits w Q main_create_app"
    unfolding main_create_app_def create_app_def Let_def
    by (rule emits_world)
       (intro emits_bind emits_lift emits_print emits_return emits_graph_call create)
  have 2: "emits w Q (main_add_secret app)" for app
    unfolding main_add_secret_def
    by (intro emits_bind emits_lift emits_print emits_return emits_add_secret secret)
  have 3: "emits w Q (main_create_service_principal app)" for app
    unfolding main_create_service_principal_def create_service_principal_def
    by (intro emits_bind emits_lift emits_print emits_return emits_graph_call sp)
  have 4: "emits w Q (main_resolve_and_add_owner app)" for app
  proof (cases "truthy (of_opt (environ w ''OWNER_MAILNICKNAME''))")
    case True
    have "emits w Q (io_bind (resolve_user_by_mailnickname (of_opt (environ w ''OWNER_MAILNICKNAME'')))
           (\<lambda>owner_id. io_bind (io_lift (getitem app ''id'')) (\<lambda>oid.
              io_bind (add_owner oid owner_id) (\<lambda>_.
              print (OwnerAdded (py_str (of_opt (environ w ''OWNER_MAILNICKNAME''))) owner_id)))))"
      unfolding resolve_user_by_mailnickname_def add_owner_def Let_def
      by (intro emits_bind emits_lift emits_print emits_return emits_raise emits_if
          emits_graph_call resolve [OF True] owner [OF True])
    then show ?thesis
      unfolding main_resolve_and_add_owner_def Let_def
      using True by (simp add: emits_def)
  next
    case False
    then show ?thesis
      unfolding main_resolve_and_add_owner_def Let_def
      by (simp add: emits_def print_def)
  qed
  have 5: "emits w Q (main_add_api_permissions app)" for app
    unfolding main_add_api_permissions_def add_api_permissions_def Let_def
    by (intro emits_bind emits_lift emits_print emits_return emits_graph_call perms)
  have 6: "emits w Q (main_update_internal_notes app)" for app
    unfolding main_update_internal_notes_def update_internal_notes_def Let_def
    by (intro emits_bind emits_lift emits_print emits_return emits_graph_call note_upd)
  show ?thesis
    unfolding main_def by (intro emits_bind 1 2 3 4 5 6)
qed

section \<open>The run in the demo directory\<close>

lemma demo_run:
  "http_requests (snd (main demo_world [])) =
   [\<lparr>http_method = ''POST'', url = ''https://graph.microsoft.com/v1.0/applications'',
     headers = [(''Authorization'', ''Bearer tok''), (''Content-Type'', ''application/json'')],
     json_payload = Some (JObj [(''displayName'', JStr ''demo-app''),
           (''signInAudience'', JStr ''AzureADMyOrg''),
           (''web'', JObj [(''redirectUris'',
                JArr [JStr ''https://a.example/cb'', JStr ''https://b.example/cb''])]),
           (''notes'', JStr ''notes of the caller'')]),
     params = None\<rparr>,
    \<lparr>http_method = ''POST'',
     url = ''https://graph.microsoft.com/v1.0/applications/obj-1/addPassword'',
     headers = [(''Authorization'', ''Bearer tok''), (''Content-Type'', ''application/json'')],
     json_payload = Some (JObj [(''passwordCredential'',
            JObj [(''displayName'', JStr ''auto-secret'')])]),
     params = None\<rparr>,
    \<lparr>http_method = ''POST'', url = ''https://graph.microsoft.com/v1.0/servicePrincipals'',
     headers = [(''Authorization'', ''Bearer tok''), (''Content-Type'', ''application/json'')],
     json_payload = Some (JObj [(''appId'', JStr ''cli-1''), (''accountEnabled'', JBool True)]),
     params = None\<rparr>,
    \<lparr>http_method = ''GET'', url = ''https://graph.microsoft.com/v1.0/users'',
     headers = [(''Authorization'', ''Bearer tok''), (''Content-Type'', ''application/json'')],
     json_payload = None,
     params = Some [(''$filter'', ''mailNickname eq '' @ [CHR 0x27] @ ''jdoe'' @ [CHR 0x27]),
         (''$select'', ''id,displayName,mailNickname'')]\<rparr>,
    \<lparr>http_method = ''POST'',
     url = ''https://graph.microsoft.com/v1.0/applications/obj-1/owners/$ref'',
     headers = [(''Authorization'', ''Bearer tok''), (''Content-Type'', ''application/json'')],
     json_payload = Some (JObj [(''@odata.id'',
            JStr ''https://graph.microsoft.com/v1.0/directoryObjects/u-123'')]),
     params = None\<rparr>,
    \<lparr>http_method = ''PATCH'', url = ''https://graph.microsoft.com/v1.0/applications/obj-1'',
     headers = [(''Authorization'', ''Bearer tok''), (''Content-Type'', ''application/json'')],
     json_payload = Some (JObj [(''requiredResourceAccess'',
            JArr [JObj [(''resourceAppId'', JStr ''00000003-0000-0000-c000-000000000000''),
                (''resourceAccess'',
                 JArr [JObj [(''id'', JStr ''df021288-bdef-4463-88db-98f22de89214''),
                     (''type'', JStr ''Role'')],
                   JObj [(''id'', JStr ''e1fe6dd8-ba31-4d61-89e7-88639da4683d''),
                     (''type'', JStr ''Scope'')]])]])]),
     params = None\<rparr>,
    \<lparr>http_method = ''PATCH'', url = ''https://graph.microsoft.com/v1.0/applications/obj-1'',
     headers = [(''Authorization'', ''Bearer tok''), (''Content-Type'', ''application/json'')],
     json_payload = Some (JObj [(''notes'', JStr ''Updated notes: now managed by CloudOps'')]),
     params = None\<rparr>]"
  by code_simp

lemma demo_run_completes: "fst (main demo_world []) = Inr ()"
  by code_simp

lemma denied_token_refused:
  "get_token denied_world tr =
     (Inl (Exception_dict [(''error'', JStr ''invalid_client'')]),
      tr @ [Token (confidential_client denied_world)])"
  by (simp add: get_token_def denied_world_def demo_world_def denied_token_def)

section \<open>Permission assignment\<close>

lemma add_api_permissions_sent:
  "get_token w tr = (Inr tok, tr1) \<Longrightarrow>
   snd (add_api_permissions oid w tr) =
     tr1 @ [Http \<lparr>http_method = ''PATCH'', url = GRAPH_BASE @ ''/applications/'' @ py_str oid,
         headers = bearer_headers tok,
         json_payload = Some (JObj [(''requiredResourceAccess'',
                        JArr [JObj [(''resourceAppId'',
                                     JStr ''00000003-0000-0000-c000-000000000000''),
                                    (''resourceAccess'', JArr permissions)]])]),
         params = None\<rparr>]"
  unfolding add_api_permissions_def Let_def by (rule graph_call_granted)

text \<open>
  C4. Whatever the world and whatever happened before, the permission step sends nothing
  when the token is refused, and otherwise sends one request: a PATCH of the application
  whose body sets \<open>requiredResourceAccess\<close> to a list of one entry, for the resource
  application \<open>00000003-0000-0000-c000-000000000000\<close>, with two accesses, a \<open>Role\<close> and a
  \<open>Scope\<close>. The body is a constant: the step reads nothing of the application first, so what
  it submits does not depend on the permissions already there. In a whole run, every request
  that sets \<open>requiredResourceAccess\<close> is a PATCH with exactly this body.
\<close>

theorem permission_assignment_fixed:
  "(\<forall>e tr1. get_token w tr = (Inl e, tr1) \<longrightarrow> add_api_permissions oid w tr = (Inl e, tr1))
   \<and> (\<forall>tok tr1. get_token w tr = (Inr tok, tr1) \<longrightarrow>
         snd (add_api_permissions oid w tr) =
           tr1 @ [Http \<lparr>http_method = ''PATCH'',
              url = GRAPH_BASE @ ''/applications/'' @ py_str oid,
              headers = bearer_headers tok,
              json_payload = Some (JObj [(''requiredResourceAccess'',
                JArr [JObj [(''resourceAppId'', JStr ''00000003-0000-0000-c000-000000000000''),
                            (''resourceAccess'',
                             JArr [JObj [(''id'', JStr ''df021288-bdef-4463-88db-98f22de89214''),
                                         (''type'', JStr ''Role'')],
                                   JObj [(''id'', JStr ''e1fe6dd8-ba31-4d61-89e7-88639da4683d''),
                                         (''type'', JStr ''Scope'')]])]])]),
              params = None\<rparr>])
   \<and> list_all (\<lambda>r. sets_permissions r \<longrightarrow>
          http_method r = ''PATCH'' \<and>
          json_payload r = Some (JObj [(''requiredResourceAccess'',
                JArr [JObj [(''resourceAppId'', JStr ''00000003-0000-0000-c000-000000000000''),
                            (''resourceAccess'',
                             JArr [JObj [(''id'', JStr ''df021288-bdef-4463-88db-98f22de89214''),
                                         (''type'', JStr ''Role'')],
                                   JObj [(''id'', JStr ''e1fe6dd8-ba31-4d61-89e7-88639da4683d''),
                                         (''type'', JStr ''Scope'')]])]])]))
        (http_requests (snd (main w [])))"
proof (intro conjI allI impI)
  fix e tr1 assume "get_token w tr = (Inl e, tr1)"
  then show "add_api_permissions oid w tr = (Inl e, tr1)"
    unfolding add_api_permissions_def Let_def by (rule graph_call_refused)
next
  fix tok tr1 assume "get_token w tr = (Inr tok, tr1)"
  from add_api_permissions_sent [OF this, of oid]
  show "snd (add_api_permissions oid w tr) =
           tr1 @ [Http \<lparr>http_method = ''PATCH'',
              url = GRAPH_BASE @ ''/applications/'' @ py_str oid,
              headers = bearer_headers tok,
              json_payload = Some (JObj [(''requiredResourceAccess'',
                JArr [JObj [(''resourceAppId'', JStr ''00000003-0000-0000-c000-000000000000''),
                            (''resourceAccess'',
                             JArr [JObj [(''id'', JStr ''df021288-bdef-4463-88db-98f22de89214''),
                                         (''type'', JStr ''Role'')],
                                   JObj [(''id'', JStr ''e1fe6dd8-ba31-4d61-89e7-88639da4683d''),
                                         (''type'', JStr ''Scope'')]])]])]),
              params = None\<rparr>]"
    by (simp add: permissions_def)
next
  show "list_all (\<lambda>r. sets_permissions r \<longrightarrow>
          http_method r = ''PATCH'' \<and>
          json_payload r = Some (JObj [(''requiredResourceAccess'',
                JArr [JObj [(''resourceAppId'', JStr ''00000003-0000-0000-c000-000000000000''),
                            (''resourceAccess'',
                             JArr [JObj [(''id'', JStr ''df021288-bdef-4463-88db-98f22de89214''),
                                         (''type'', JStr ''Role'')],
                                   JObj [(''id'', JStr ''e1fe6dd8-ba31-4d61-89e7-88639da4683d''),
                                         (''type'', JStr ''Scope'')]])]])]))
        (http_requests (snd (main w [])))"
    by (rule emits_run, rule emits_main_requests)
       (simp_all add: sets_permissions_def permissions_def)
qed

theorem permission_assignment_fixed_witness:
  "snd (add_api_permissions (JStr ''obj-1'') demo_world []) =
     [Token (confidential_client demo_world),
      Http \<lparr>http_method = ''PATCH'',
              url = ''https://graph.microsoft.com/v1.0/applications/obj-1'',
              headers = bearer_headers (JStr ''tok''),
              json_payload = Some (JObj [(''requiredResourceAccess'',
                JArr [JObj [(''resourceAppId'', JStr ''00000003-0000-0000-c000-000000000000''),
                            (''resourceAccess'',
                             JArr [JObj [(''id'', JStr ''df021288-bdef-4463-88db-98f22de89214''),
                                         (''type'', JStr ''Role'')],
                                   JObj [(''id'', JStr ''e1fe6dd8-ba31-4d61-89e7-88639da4683d''),
                                         (''type'', JStr ''Scope'')]])]])]),
              params = None\<rparr>]
   \<and> add_api_permissions (JStr ''obj-1'') denied_world [] =
       (Inl (Exception_dict [(''error'', JStr ''invalid_client'')]),
        [Token (confidential_client denied_world)])
   \<and> (\<exists>r \<in> set (http_requests (snd (main demo_world []))).
         sets_permissions r \<and> http_method r = ''PATCH'' \<and>
         url r = ''https://graph.microsoft.com/v1.0/applications/obj-1'')"
proof -
  let ?r = "\<lparr>http_method = ''PATCH'', url = ''https://graph.microsoft.com/v1.0/applications/obj-1'',
     headers = [(''Authorization'', ''Bearer tok''), (''Content-Type'', ''application/json'')],
     json_payload = Some (JObj [(''requiredResourceAccess'',
            JArr [JObj [(''resourceAppId'', JStr ''00000003-0000-0000-c000-000000000000''),
                (''resourceAccess'',
                 JArr [JObj [(''id'', JStr ''df021288-bdef-4463-88db-98f22de89214''),
                     (''type'', JStr ''Role'')],
                   JObj [(''id'', JStr ''e1fe6dd8-ba31-4d61-89e7-88639da4683d''),
                     (''type'', JStr ''Scope'')]])]])]),
     params = None\<rparr>"
  have 1: "snd (add_api_permissions (JStr ''obj-1'') demo_world []) =
     [Token (confidential_client demo_world),
      Http \<lparr>http_method = ''PATCH'',
              url = ''https://graph.microsoft.com/v1.0/applications/obj-1'',
              headers = bearer_headers (JStr ''tok''),
              json_payload = Some (JObj [(''requiredResourceAccess'',
                JArr [JObj [(''resourceAppId'', JStr ''00000003-0000-0000-c000-000000000000''),
                            (''resourceAccess'',
                             JArr [JObj [(''id'', JStr ''df021288-bdef-4463-88db-98f22de89214''),
                                         (''type'', JStr ''Role'')],
                                   JObj [(''id'', JStr ''e1fe6dd8-ba31-4d61-89e7-88639da4683d''),
                                         (''type'', JStr ''Scope'')]])]])]),
              params = None\<rparr>]"
    using permission_assignment_fixed [of demo_world "[]" "JStr ''obj-1''"]
      demo_token_granted [of "[]"]
    by (simp add: GRAPH_BASE_def py_str_def)
  have 2: "add_api_permissions (JStr ''obj-1'') denied_world [] =
       (Inl (Exception_dict [(''error'', JStr ''invalid_client'')]),
        [Token (confidential_client denied_world)])"
    using permission_assignment_fixed [of denied_world "[]" "JStr ''obj-1''"]
      denied_token_refused [of "[]"]
    by simp
  have mem: "?r \<in> set (http_requests (snd (main demo_world [])))"
    unfolding demo_run by simp
  have sp: "sets_permissions ?r"
    by (simp add: sets_permissions_def)
  have "http_method ?r = ''PATCH''"
    using permission_assignment_fixed [of demo_world "[]" "JStr ''obj-1''"] mem sp
    unfolding list_all_iff by blast
  then have 3: "\<exists>r \<in> set (http_requests (snd (main demo_world []))).
         sets_permissions r \<and> http_method r = ''PATCH'' \<and>
         url r = ''https://graph.microsoft.com/v1.0/applications/obj-1''"
    using mem sp by (intro bexI [of _ ?r]) simp_all
  show ?thesis using 1 2 3 by blast
qed

section \<open>The user lookup\<close>

lemma resolve_trace:
  "snd (resolve_user_by_mailnickname a w tr) =
   snd (graph_call ''GET'' ''/users'' None
         (Some [(''$filter'', user_filter a), (''$select'', ''id,displayName,mailNickname'')]) w tr)"
  by (simp add: resolve_user_by_mailnickname_def Let_def io_bind_def io_lift_def io_raise_def
      split: prod.splits sum.splits)

lemma takeWhile_stops_inside:
  "x \<in> set a \<Longrightarrow> takeWhile (\<lambda>c. c \<noteq> x) (a @ b) \<noteq> a"
  by (metis (mono_tags, lifting) set_takeWhileD)

text \<open>
  C10. For an alias \<open>a\<close> that is a string, the \<open>$filter\<close> parameter of the lookup request is
  \<^verbatim>\<open>mailNickname eq '\<close> followed by \<open>a\<close> followed by \<^verbatim>\<open>'\<close>, with \<open>a\<close> as it is: the filter has
  the two quotes of the template and every quote of \<open>a\<close>, none doubled or escaped. In a run,
  every GET request carries that filter for the configured alias. So when \<open>a\<close> holds a quote,
  the quoted text that opens after \<^verbatim>\<open>eq\<close> closes inside \<open>a\<close>: read up to its first closing
  quote, it is not \<open>a\<close>.
\<close>

theorem user_filter_verbatim:
  "user_filter (JStr a) = ''mailNickname eq '' @ [CHR 0x27] @ a @ [CHR 0x27]
   \<and> (\<forall>tok tr1. get_token w tr = (Inr tok, tr1) \<longrightarrow>
         snd (resolve_user_by_mailnickname (JStr a) w tr) =
           tr1 @ [Http \<lparr>http_method = ''GET'', url = GRAPH_BASE @ ''/users'',
                         headers = bearer_headers tok, json_payload = None,
                         params = Some [(''$filter'',
                                         ''mailNickname eq '' @ [CHR 0x27] @ a @ [CHR 0x27]),
                                        (''$select'', ''id,displayName,mailNickname'')]\<rparr>])
   \<and> list_all (\<lambda>r. http_method r = ''GET'' \<longrightarrow>
          (\<exists>alias. environ w ''OWNER_MAILNICKNAME'' = Some alias \<and>
             params r = Some [(''$filter'',
                               ''mailNickname eq '' @ [CHR 0x27] @ alias @ [CHR 0x27]),
                              (''$select'', ''id,displayName,mailNickname'')]))
        (http_requests (snd (main w [])))
   \<and> length (filter (\<lambda>c. c = CHR 0x27) (user_filter (JStr a)))
       = length (filter (\<lambda>c. c = CHR 0x27) a) + 2
   \<and> (CHR 0x27 \<in> set a \<longrightarrow>
         takeWhile (\<lambda>c. c \<noteq> CHR 0x27) (drop 17 (user_filter (JStr a))) \<noteq> a)"
proof (intro conjI allI impI)
  show eq: "user_filter (JStr a) = ''mailNickname eq '' @ [CHR 0x27] @ a @ [CHR 0x27]"
    by (simp add: user_filter_def py_str_def)
  show "length (filter (\<lambda>c. c = CHR 0x27) (user_filter (JStr a)))
       = length (filter (\<lambda>c. c = CHR 0x27) a) + 2"
    by (simp add: user_filter_def py_str_def)
  show "takeWhile (\<lambda>c. c \<noteq> CHR 0x27) (drop 17 (user_filter (JStr a))) \<noteq> a"
    if "CHR 0x27 \<in> set a"
  proof -
    have "drop 17 (user_filter (JStr a)) = a @ [CHR 0x27]"
      by (simp add: user_filter_def py_str_def)
    then show ?thesis
      using takeWhile_stops_inside [OF that] by simp
  qed
next
  fix tok tr1 assume tok: "get_token w tr = (Inr tok, tr1)"
  show "snd (resolve_user_by_mailnickname (JStr a) w tr) =
           tr1 @ [Http \<lparr>http_method = ''GET'', url = GRAPH_BASE @ ''/users'',
                         headers = bearer_headers tok, json_payload = None,
                         params = Some [(''$filter'',
                                         ''mailNickname eq '' @ [CHR 0x27] @ a @ [CHR 0x27]),
                                        (''$select'', ''id,displayName,mailNickname'')]\<rparr>]"
    unfolding resolve_trace graph_call_granted [OF tok]
    by (simp add: user_filter_def py_str_def)
next
  show "list_all (\<lambda>r. http_method r = ''GET'' \<longrightarrow>
          (\<exists>alias. environ w ''OWNER_MAILNICKNAME'' = Some alias \<and>
             params r = Some [(''$filter'',
                               ''mailNickname eq '' @ [CHR 0x27] @ alias @ [CHR 0x27]),
                              (''$select'', ''id,displayName,mailNickname'')]))
        (http_requests (snd (main w [])))"
    by (rule emits_run, rule emits_main_requests)
       (auto simp add: user_filter_def py_str_def of_opt_def truthy_def split: option.splits)
qed

theorem user_filter_verbatim_witness:
  "snd (resolve_user_by_mailnickname (JStr ''o'brien'') demo_world []) =
     [Token (confidential_client demo_world),
      Http \<lparr>http_method = ''GET'', url = GRAPH_BASE @ ''/users'',
             headers = bearer_headers (JStr ''tok''), json_payload = None,
             params = Some [(''$filter'', ''mailNickname eq 'o'brien'' @ [CHR 0x27]),
                            (''$select'', ''id,displayName,mailNickname'')]\<rparr>]
   \<and> takeWhile (\<lambda>c. c \<noteq> CHR 0x27) (drop 17 (user_filter (JStr ''o'brien''))) \<noteq> ''o'brien''
   \<and> (\<exists>r \<in> set (http_requests (snd (main demo_world []))).
         http_method r = ''GET'' \<and>
         params r = Some [(''$filter'', ''mailNickname eq 'jdoe'' @ [CHR 0x27]),
                          (''$select'', ''id,displayName,mailNickname'')])"
proof -
  let ?r = "\<lparr>http_method = ''GET'', url = ''https://graph.microsoft.com/v1.0/users'',
     headers = [(''Authorization'', ''Bearer tok''), (''Content-Type'', ''application/json'')],
     json_payload = None,
     params = Some [(''$filter'', ''mailNickname eq '' @ [CHR 0x27] @ ''jdoe'' @ [CHR 0x27]),
         (''$select'', ''id,displayName,mailNickname'')]\<rparr>"
  note inst = user_filter_verbatim [of "''o'brien''" demo_world "[]"]
  have 1: "snd (resolve_user_by_mailnickname (JStr ''o'brien'') demo_world []) =
     [Token (confidential_client demo_world),
      Http \<lparr>http_method = ''GET'', url = GRAPH_BASE @ ''/users'',
             headers = bearer_headers (JStr ''tok''), json_payload = None,
             params = Some [(''$filter'', ''mailNickname eq 'o'brien'' @ [CHR 0x27]),
                            (''$select'', ''id,displayName,mailNickname'')]\<rparr>]"
    using inst demo_token_granted [of "[]"] by simp
  have quote: "CHR 0x27 \<in> set ''o'brien''"
    by simp
  have 2: "takeWhile (\<lambda>c. c \<noteq> CHR 0x27) (drop 17 (user_filter (JStr ''o'brien'')))
      \<noteq> ''o'brien''"
    using inst quote by blast
  have mem: "?r \<in> set (http_requests (snd (main demo_world [])))"
    unfolding demo_run by simp
  have "list_all (\<lambda>r. http_method r = ''GET'' \<longrightarrow>
          (\<exists>alias. environ demo_world ''OWNER_MAILNICKNAME'' = Some alias \<and>
             params r = Some [(''$filter'',
                               ''mailNickname eq '' @ [CHR 0x27] @ alias @ [CHR 0x27]),
                              (''$select'', ''id,displayName,mailNickname'')]))
        (http_requests (snd (main demo_world [])))"
    using inst by blast
  then have "\<exists>alias. environ demo_world ''OWNER_MAILNICKNAME'' = Some alias \<and>
             params ?r = Some [(''$filter'',
                               ''mailNickname eq '' @ [CHR 0x27] @ alias @ [CHR 0x27]),
                              (''$select'', ''id,displayName,mailNickname'')]"
    using mem unfolding list_all_iff by auto
  then have 3: "\<exists>r \<in> set (http_requests (snd (main demo_world []))).
         http_method r = ''GET'' \<and>
         params r = Some [(''$filter'', ''mailNickname eq 'jdoe'' @ [CHR 0x27]),
                          (''$select'', ''id,displayName,mailNickname'')]"
    using mem by (intro bexI [of _ ?r]) simp_all
  show ?thesis using 1 2 3 by blast
qed

section \<open>The secret request against the gateway\<close>

lemma silent_token_granted:
  "get_token silent_world tr = (Inr (JStr ''tok''), tr @ [Token (confidential_client silent_world)])"
  by (simp add: get_token_def silent_world_def demo_world_def demo_token_def)

lemma silent_answers:
  "requests_request silent_world tr rq =
     Inr \<lparr>ok = True, status_code = 204, rtext = [], json_body = None\<rparr>"
  by (simp add: silent_world_def silent_directory_def answer_def)

text \<open>
  C3, as stated, fails: when the directory answers the secret request with a success and an
  empty body, the gateway gives the empty dictionary and \<open>add_secret\<close> raises the
  decoder's error.
\<close>

theorem add_secret_not_gateway_counterexample:
  "add_secret (JStr ''obj-1'') silent_world [] \<noteq>
   graph_call ''POST'' (''/applications/'' @ py_str (JStr ''obj-1'') @ ''/addPassword'')
     (Some (JObj [(''passwordCredential'', JObj [(''displayName'', JStr ''auto-secret'')])])) None
     silent_world []"
proof -
  have "fst (add_secret (JStr ''obj-1'') silent_world []) = Inl JSONDecodeError"
    by (simp add: add_secret_def io_bind_def silent_token_granted send_def silent_answers Let_def
        io_raise_def)
  moreover have "fst (graph_call ''POST''
      (''/applications/'' @ py_str (JStr ''obj-1'') @ ''/addPassword'')
      (Some (JObj [(''passwordCredential'', JObj [(''displayName'', JStr ''auto-secret'')])])) None
      silent_world []) = Inr (JObj [])"
    by (simp add: graph_call_def io_bind_def silent_token_granted send_def silent_answers Let_def
        io_return_def)
  ultimately show ?thesis by auto
qed

text \<open>
  C3, amended. \<open>add_secret\<close> leaves the trace the gateway would leave for the same POST: the
  same token request and the same HTTP request (method, URL, headers, body, no query). The
  two give the same result when the token is refused, when the HTTP library raises, and when
  the answer is a success with a body. On an answer that is not a success both raise an
  exception, \<open>add_secret\<close> with the body text alone as its message and the gateway with
  method, URL, status and body text. On a success with an empty body the gateway gives the
  empty dictionary and \<open>add_secret\<close> gives what \<^verbatim>\<open>r.json()\<close> gives.
\<close>

theorem add_secret_against_gateway:
  fixes oid :: json
  defines "endpoint \<equiv> ''/applications/'' @ py_str oid @ ''/addPassword''"
  defines "body \<equiv> JObj [(''passwordCredential'', JObj [(''displayName'', JStr ''auto-secret'')])]"
  shows "snd (add_secret oid w tr) = snd (graph_call ''POST'' endpoint (Some body) None w tr)
    \<and> (\<forall>e tr1. get_token w tr = (Inl e, tr1) \<longrightarrow>
          add_secret oid w tr = graph_call ''POST'' endpoint (Some body) None w tr)
    \<and> (\<forall>tok tr1. get_token w tr = (Inr tok, tr1) \<longrightarrow>
         (case requests_request w tr1
                 \<lparr>http_method = ''POST'', url = GRAPH_BASE @ endpoint,
                  headers = bearer_headers tok, json_payload = Some body, params = None\<rparr> of
            Inl e \<Rightarrow> add_secret oid w tr = graph_call ''POST'' endpoint (Some body) None w tr
          | Inr r \<Rightarrow>
              (ok r \<and> rtext r \<noteq> [] \<longrightarrow>
                 add_secret oid w tr = graph_call ''POST'' endpoint (Some body) None w tr)
            \<and> (\<not> ok r \<longrightarrow>
                 fst (add_secret oid w tr) = Inl (Exception_str (rtext r))
               \<and> fst (graph_call ''POST'' endpoint (Some body) None w tr) =
                   Inl (Exception_str (''POST '' @ (GRAPH_BASE @ endpoint) @ '' failed: ''
                                       @ int_str (status_code r) @ '' '' @ rtext r)))
            \<and> (ok r \<and> rtext r = [] \<longrightarrow>
                 fst (add_secret oid w tr) =
                   (case json_body r of None \<Rightarrow> Inl JSONDecodeError | Some v \<Rightarrow> Inr v)
               \<and> fst (graph_call ''POST'' endpoint (Some body) None w tr) = Inr (JObj []))))"
  unfolding endpoint_def body_def
  by (auto simp add: add_secret_def graph_call_def io_bind_def send_def io_raise_def
      io_return_def Let_def split: sum.splits option.splits prod.splits)

theorem add_secret_against_gateway_witness:
  "add_secret (JStr ''obj-1'') demo_world [] =
     graph_call ''POST'' ''/applications/obj-1/addPassword''
       (Some (JObj [(''passwordCredential'', JObj [(''displayName'', JStr ''auto-secret'')])]))
       None demo_world []
   \<and> fst (add_secret (JStr ''obj-1'') demo_world []) = Inr (JObj [(''secretText'', JStr ''s3cret'')])
   \<and> fst (add_secret (JStr ''gone'') demo_world []) = Inl (Exception_str ''not found'')
   \<and> fst (graph_call ''POST'' ''/applications/gone/addPassword''
       (Some (JObj [(''passwordCredential'', JObj [(''displayName'', JStr ''auto-secret'')])]))
       None demo_world []) =
       Inl (Exception_str (''POST https://graph.microsoft.com/v1.0/applications/gone/addPassword''
                           @ '' failed: 404 not found''))
   \<and> add_secret (JStr ''obj-1'') denied_world [] =
     graph_call ''POST'' ''/applications/obj-1/addPassword''
       (Some (JObj [(''passwordCredential'', JObj [(''displayName'', JStr ''auto-secret'')])]))
       None denied_world []"
proof -
  let ?body = "JObj [(''passwordCredential'', JObj [(''displayName'', JStr ''auto-secret'')])]"
  let ?tr1 = "[Token (confidential_client demo_world)]"
  have found: "requests_request demo_world ?tr1
      \<lparr>http_method = ''POST'',
       url = GRAPH_BASE @ ''/applications/'' @ py_str (JStr ''obj-1'') @ ''/addPassword'',
       headers = bearer_headers (JStr ''tok''), json_payload = Some ?body, params = None\<rparr>
     = Inr \<lparr>ok = True, status_code = 200, rtext = ''{secretText: s3cret}'',
            json_body = Some (JObj [(''secretText'', JStr ''s3cret'')])\<rparr>"
    by (simp add: demo_world_def demo_directory_def answer_def GRAPH_BASE_def py_str_def)
  have gone: "requests_request demo_world ?tr1
      \<lparr>http_method = ''POST'',
       url = GRAPH_BASE @ ''/applications/'' @ py_str (JStr ''gone'') @ ''/addPassword'',
       headers = bearer_headers (JStr ''tok''), json_payload = Some ?body, params = None\<rparr>
     = Inr \<lparr>ok = False, status_code = 404, rtext = ''not found'', json_body = None\<rparr>"
    by (simp add: demo_world_def demo_directory_def answer_def GRAPH_BASE_def py_str_def)
  have digits: "int_str 404 = ''404''"
    by (simp add: int_str_def nat_digits.simps digit_char_def)
  have tok: "get_token demo_world [] = (Inr (JStr ''tok''), ?tr1)"
    using demo_token_granted [of "[]"] by simp
  have 1: "add_secret (JStr ''obj-1'') demo_world [] =
     graph_call ''POST'' ''/applications/obj-1/addPassword'' (Some ?body) None demo_world []"
    using add_secret_against_gateway [of "JStr ''obj-1''" demo_world "[]"] tok found
    by (simp add: py_str_def)
  have 2: "fst (add_secret (JStr ''obj-1'') demo_world [])
      = Inr (JObj [(''secretText'', JStr ''s3cret'')])"
    using tok found
    by (simp add: add_secret_def io_bind_def send_def io_return_def Let_def)
  have 3: "fst (add_secret (JStr ''gone'') demo_world []) = Inl (Exception_str ''not found'')
     \<and> fst (graph_call ''POST'' ''/applications/gone/addPassword'' (Some ?body) None
              demo_world []) =
       Inl (Exception_str (''POST https://graph.microsoft.com/v1.0/applications/gone/addPassword''
                           @ '' failed: 404 not found''))"
    using add_secret_against_gateway [of "JStr ''gone''" demo_world "[]"] tok gone digits
    by (simp add: py_str_def GRAPH_BASE_def)
  have 4: "add_secret (JStr ''obj-1'') denied_world [] =
     graph_call ''POST'' ''/applications/obj-1/addPassword'' (Some ?body) None denied_world []"
    using add_secret_against_gateway [of "JStr ''obj-1''" denied_world "[]"]
      denied_token_refused [of "[]"]
    by (simp add: py_str_def)
  show ?thesis using 1 2 3 4 by blast
qed

section \<open>The redirect URIs\<close>

lemma split_acc_nonempty: "split_acc c acc s \<noteq> []"
  by (induction s arbitrary: acc) auto

lemma join_Cons: "ps \<noteq> [] \<Longrightarrow> join sep (p # ps) = p @ sep @ join sep ps"
  by (cases ps) auto

lemma join_split_acc: "join [c] (split_acc c acc s) = rev acc @ s"
  by (induction s arbitrary: acc) (auto simp: join_Cons split_acc_nonempty)

lemma split_acc_sep_free:
  "c \<notin> set acc \<Longrightarrow> list_all (\<lambda>p. c \<notin> set p) (split_acc c acc s)"
  by (induction s arbitrary: acc) auto

lemma split_acc_piece:
  "c \<notin> set p \<Longrightarrow> split_acc c acc p = [rev acc @ p]"
  by (induction p arbitrary: acc) auto

lemma split_acc_first:
  "c \<notin> set p \<Longrightarrow> split_acc c acc (p @ c # rest) = (rev acc @ p) # split_acc c [] rest"
  by (induction p arbitrary: acc) auto

lemma split_unique:
  "ps \<noteq> [] \<Longrightarrow> list_all (\<lambda>p. c \<notin> set p) ps \<Longrightarrow> split c (join [c] ps) = ps"
proof (induction ps)
  case Nil
  then show ?case by simp
next
  case (Cons p ps)
  show ?case
  proof (cases ps)
    case Nil
    then show ?thesis using Cons.prems by (simp add: split_def split_acc_piece)
  next
    case (Cons q qs)
    then have "split c (join [c] ps) = ps"
      using Cons.IH Cons.prems by simp
    then show ?thesis
      using Cons Cons.prems by (simp add: split_def split_acc_first)
  qed
qed

lemma split_is_comma_split: "is_comma_split s (split CHR '','' s)"
  by (simp add: is_comma_split_def split_def split_acc_nonempty join_split_acc
      split_acc_sep_free)

lemma comma_split_unique: "is_comma_split s ps \<Longrightarrow> ps = split CHR '','' s"
  using split_unique [of ps "CHR '',''"] by (auto simp: is_comma_split_def)

lemma strip_decompose:
  "\<exists>pre post. u = pre @ strip u @ post \<and> list_all isspace pre \<and> list_all isspace post"
proof -
  let ?v = "dropWhile isspace u"
  have "rev ?v = takeWhile isspace (rev ?v) @ dropWhile isspace (rev ?v)"
    by simp
  then have "?v = rev (dropWhile isspace (rev ?v)) @ rev (takeWhile isspace (rev ?v))"
    by (metis rev_append rev_rev_ident)
  then have "u = takeWhile isspace u @ strip u @ rev (takeWhile isspace (rev ?v))"
    unfolding strip_def by (metis takeWhile_dropWhile_id)
  moreover have "list_all isspace (takeWhile isspace u)"
    by (simp add: list_all_iff) (meson set_takeWhileD)
  moreover have "list_all isspace (rev (takeWhile isspace (rev ?v)))"
    by (simp add: list_all_iff) (meson set_takeWhileD)
  ultimately show ?thesis by blast
qed

lemma strip_prefix_of_dropWhile:
  "dropWhile isspace u = strip u @ rev (takeWhile isspace (rev (dropWhile isspace u)))"
proof -
  let ?v = "dropWhile isspace u"
  have "rev ?v = takeWhile isspace (rev ?v) @ dropWhile isspace (rev ?v)"
    by simp
  then have "?v = rev (dropWhile isspace (rev ?v)) @ rev (takeWhile isspace (rev ?v))"
    by (metis rev_append rev_rev_ident)
  then show ?thesis
    unfolding strip_def .
qed

lemma strip_ends:
  assumes "strip u \<noteq> []"
  shows "\<not> isspace (hd (strip u)) \<and> \<not> isspace (last (strip u))"
proof -
  let ?v = "dropWhile isspace u"
  have ne: "dropWhile isspace (rev ?v) \<noteq> []"
    using assms by (simp add: strip_def)
  have "last (strip u) = hd (dropWhile isspace (rev ?v))"
    using ne by (simp add: strip_def last_rev)
  then have l: "\<not> isspace (last (strip u))"
    using ne hd_dropWhile [of isspace "rev ?v"] by simp
  have v: "?v \<noteq> []"
    using assms strip_prefix_of_dropWhile [of u] by (metis append_is_Nil_conv)
  have "hd ?v = hd (strip u)"
    using assms strip_prefix_of_dropWhile [of u] by (metis hd_append2)
  moreover have "\<not> isspace (hd ?v)"
    using v hd_dropWhile [of isspace u] by simp
  ultimately show ?thesis using l by simp
qed


lemma redirect_uris_list_trimmed:
  "redirect_uris_list w =
     trimmed_nonempty (split CHR '','' (case environ w ''REDIRECT_URIS'' of None \<Rightarrow> [] | Some v \<Rightarrow> v))"
  by (simp add: redirect_uris_list_def trimmed_nonempty_def Let_def filter_map comp_def)

lemma strip_Nil: "strip [] = []"
  by (simp add: strip_def)

text \<open>
  C9. For every value \<open>s\<close> of the setting (the empty string when it is unset), \<open>s\<close> has a split
  on commas, and for that split the list given to application creation is its pieces
  trimmed, without those that are empty after trimming. Trimming takes whitespace off both
  ends and nothing else. An unset or empty setting gives the empty list, and the list never
  holds an empty string. The creation request of a run carries exactly this list as
  \<open>web.redirectUris\<close>.
\<close>

theorem redirect_uris_from_configuration:
  fixes w :: world
  defines "s \<equiv> (case environ w ''REDIRECT_URIS'' of None \<Rightarrow> [] | Some v \<Rightarrow> v)"
  shows "(\<exists>ps. is_comma_split s ps)
    \<and> (\<forall>ps. is_comma_split s ps \<longrightarrow> redirect_uris_list w = trimmed_nonempty ps)
    \<and> (\<forall>u. \<exists>pre post. u = pre @ strip u @ post \<and> list_all isspace pre \<and> list_all isspace post
            \<and> (strip u \<noteq> [] \<longrightarrow> \<not> isspace (hd (strip u)) \<and> \<not> isspace (last (strip u))))
    \<and> (s = [] \<longrightarrow> redirect_uris_list w = [])
    \<and> [] \<notin> set (redirect_uris_list w)
    \<and> list_all (\<lambda>r. http_method r = ''POST'' \<and> url r = GRAPH_BASE @ ''/applications'' \<longrightarrow>
          (\<exists>kvs. json_payload r = Some (JObj kvs) \<and>
             map_of kvs ''web'' =
               Some (JObj [(''redirectUris'', JArr (map JStr (redirect_uris_list w)))])))
        (http_requests (snd (main w [])))"
proof (intro conjI allI impI)
  show "\<exists>ps. is_comma_split s ps"
    using split_is_comma_split by blast
  show "redirect_uris_list w = trimmed_nonempty ps" if "is_comma_split s ps" for ps
    using comma_split_unique [OF that] redirect_uris_list_trimmed [of w] by (simp add: s_def)
  show "\<exists>pre post. u = pre @ strip u @ post \<and> list_all isspace pre \<and> list_all isspace post
            \<and> (strip u \<noteq> [] \<longrightarrow> \<not> isspace (hd (strip u)) \<and> \<not> isspace (last (strip u)))" for u
    using strip_decompose [of u] strip_ends [of u] by blast
  show "redirect_uris_list w = []" if "s = []"
    using that redirect_uris_list_trimmed [of w]
    by (simp add: s_def trimmed_nonempty_def split_def strip_Nil)
  show "[] \<notin> set (redirect_uris_list w)"
    by (simp add: redirect_uris_list_trimmed trimmed_nonempty_def)
  show "list_all (\<lambda>r. http_method r = ''POST'' \<and> url r = GRAPH_BASE @ ''/applications'' \<longrightarrow>
          (\<exists>kvs. json_payload r = Some (JObj kvs) \<and>
             map_of kvs ''web'' =
               Some (JObj [(''redirectUris'', JArr (map JStr (redirect_uris_list w)))])))
        (http_requests (snd (main w [])))"
    by (rule emits_run, rule emits_main_requests) simp_all
qed

theorem redirect_uris_from_configuration_witness:
  "redirect_uris_list demo_world = [''https://a.example/cb'', ''https://b.example/cb'']
   \<and> redirect_uris_list (demo_world\<lparr>environ := Map.empty\<rparr>) = []
   \<and> redirect_uris_list (demo_world\<lparr>environ := [''REDIRECT_URIS'' \<mapsto> '' , '']\<rparr>) = []
   \<and> (\<exists>r \<in> set (http_requests (snd (main demo_world []))).
         http_method r = ''POST'' \<and> url r = GRAPH_BASE @ ''/applications'' \<and>
         (\<exists>kvs. json_payload r = Some (JObj kvs) \<and>
             map_of kvs ''web'' =
               Some (JObj [(''redirectUris'',
                            JArr [JStr ''https://a.example/cb'', JStr ''https://b.example/cb''])])))"
proof -
  let ?r = "\<lparr>http_method = ''POST'', url = ''https://graph.microsoft.com/v1.0/applications'',
     headers = [(''Authorization'', ''Bearer tok''), (''Content-Type'', ''application/json'')],
     json_payload = Some (JObj [(''displayName'', JStr ''demo-app''),
           (''signInAudience'', JStr ''AzureADMyOrg''),
           (''web'', JObj [(''redirectUris'',
                JArr [JStr ''https://a.example/cb'', JStr ''https://b.example/cb''])]),
           (''notes'', JStr ''notes of the caller'')]),
     params = None\<rparr>"
  note inst = redirect_uris_from_configuration [of demo_world]
  have env: "environ demo_world ''REDIRECT_URIS'' = Some '' https://a.example/cb , ,https://b.example/cb''"
    by (simp add: demo_world_def demo_environ_def)
  have sp: "is_comma_split '' https://a.example/cb , ,https://b.example/cb''
      ['' https://a.example/cb '', '' '', ''https://b.example/cb'']"
    by (simp add: is_comma_split_def)
  have tr: "trimmed_nonempty ['' https://a.example/cb '', '' '', ''https://b.example/cb'']
      = [''https://a.example/cb'', ''https://b.example/cb'']"
    by code_simp
  have 1: "redirect_uris_list demo_world = [''https://a.example/cb'', ''https://b.example/cb'']"
    using inst sp tr by (simp add: env)
  have 2: "redirect_uris_list (demo_world\<lparr>environ := Map.empty\<rparr>) = []"
    using redirect_uris_from_configuration [of "demo_world\<lparr>environ := Map.empty\<rparr>"] by simp
  have sp3: "is_comma_split '' , '' ['' '', '' '']"
    by (simp add: is_comma_split_def)
  have tr3: "trimmed_nonempty ['' '', '' ''] = []"
    by code_simp
  have 3: "redirect_uris_list (demo_world\<lparr>environ := [''REDIRECT_URIS'' \<mapsto> '' , '']\<rparr>) = []"
    using redirect_uris_from_configuration
      [of "demo_world\<lparr>environ := [''REDIRECT_URIS'' \<mapsto> '' , '']\<rparr>"] sp3 tr3
    by simp
  have mem: "?r \<in> set (http_requests (snd (main demo_world [])))"
    unfolding demo_run by simp
  have "list_all (\<lambda>r. http_method r = ''POST'' \<and> url r = GRAPH_BASE @ ''/applications'' \<longrightarrow>
          (\<exists>kvs. json_payload r = Some (JObj kvs) \<and>
             map_of kvs ''web'' =
               Some (JObj [(''redirectUris'', JArr (map JStr (redirect_uris_list demo_world)))])))
        (http_requests (snd (main demo_world [])))"
    using inst by blast
  then have "http_method ?r = ''POST'' \<and> url ?r = GRAPH_BASE @ ''/applications'' \<longrightarrow>
          (\<exists>kvs. json_payload ?r = Some (JObj kvs) \<and>
             map_of kvs ''web'' =
               Some (JObj [(''redirectUris'', JArr (map JStr (redirect_uris_list demo_world)))]))"
    using mem unfolding list_all_iff by (rule bspec)
  then have 4: "\<exists>r \<in> set (http_requests (snd (main demo_world []))).
         http_method r = ''POST'' \<and> url r = GRAPH_BASE @ ''/applications'' \<and>
         (\<exists>kvs. json_payload r = Some (JObj kvs) \<and>
             map_of kvs ''web'' =
               Some (JObj [(''redirectUris'',
                            JArr [JStr ''https://a.example/cb'', JStr ''https://b.example/cb''])]))"
    using mem 1 by (intro bexI [of _ ?r]) (simp_all add: GRAPH_BASE_def)
  show ?thesis using 1 2 3 4 by blast
qed

section \<open>Owner resolution\<close>

lemma io_bind_InrE:
  assumes "io_bind m f w tr = (Inr y, tr')"
  obtains x tr1 where "m w tr = (Inr x, tr1)" "f x w tr1 = (Inr y, tr')"
  using assms by (auto simp: io_bind_def split: prod.splits sum.splits)

lemma io_lift_eq [simp]: "io_lift r w tr = (r, tr)"
  by (simp add: io_lift_def)

lemma io_raise_eq [simp]: "io_raise e w tr = (Inl e, tr)"
  by (simp add: io_raise_def)

lemma io_return_eq [simp]: "io_return x w tr = (Inr x, tr)"
  by (simp add: io_return_def)

lemma print_eq [simp]: "print m w tr = (Inr (), tr @ [Print m])"
  by (simp add: print_def)

lemma graph_call_Inr:
  assumes "graph_call meth endpoint payload prms w tr = (Inr v, tr')"
  obtains tok where "get_token w tr = (Inr tok, tr @ [Token (confidential_client w)])"
    "tr' = tr @ [Token (confidential_client w),
                 Http \<lparr>http_method = meth, url = GRAPH_BASE @ endpoint,
                       headers = bearer_headers tok, json_payload = payload, params = prms\<rparr>]"
proof -
  from assms obtain tok tr1 where tok: "get_token w tr = (Inr tok, tr1)"
    unfolding graph_call_def by (elim io_bind_InrE)
  then have tr1: "tr1 = tr @ [Token (confidential_client w)]"
    by (rule get_token_eq)
  have "tr' = tr1 @ [Http \<lparr>http_method = meth, url = GRAPH_BASE @ endpoint,
                       headers = bearer_headers tok, json_payload = payload, params = prms\<rparr>]"
    using graph_call_granted [OF tok, of meth endpoint payload prms] assms by simp
  then show ?thesis using that tok tr1 by simp
qed

lemma no_user_token_granted:
  "get_token no_user_world tr =
     (Inr (JStr ''tok''), tr @ [Token (confidential_client no_user_world)])"
  by (simp add: get_token_def no_user_world_def demo_world_def demo_token_def)

lemma demo_lookup:
  "graph_call ''GET'' ''/users'' None
     (Some [(''$filter'', user_filter (JStr ''jdoe'')),
            (''$select'', ''id,displayName,mailNickname'')]) demo_world [] =
   (Inr (JObj [(''value'', one_user)]),
    [Token (confidential_client demo_world),
     Http \<lparr>http_method = ''GET'', url = GRAPH_BASE @ ''/users'',
           headers = bearer_headers (JStr ''tok''), json_payload = None,
           params = Some [(''$filter'', user_filter (JStr ''jdoe'')),
                          (''$select'', ''id,displayName,mailNickname'')]\<rparr>])"
proof -
  have "requests_request demo_world tr
      \<lparr>http_method = ''GET'', url = GRAPH_BASE @ ''/users'', headers = hs,
       json_payload = None, params = ps\<rparr>
    = Inr \<lparr>ok = True, status_code = 200, rtext = ''{value: ...}'',
           json_body = Some (JObj [(''value'', one_user)])\<rparr>" for tr hs ps
    by (simp add: demo_world_def demo_directory_def answer_def GRAPH_BASE_def)
  then show ?thesis
    by (simp add: graph_call_def io_bind_def demo_token_granted send_def Let_def)
qed

lemma no_user_lookup:
  "graph_call ''GET'' ''/users'' None
     (Some [(''$filter'', user_filter (JStr ''jdoe'')),
            (''$select'', ''id,displayName,mailNickname'')]) no_user_world [] =
   (Inr (JObj [(''value'', JArr [])]),
    [Token (confidential_client no_user_world),
     Http \<lparr>http_method = ''GET'', url = GRAPH_BASE @ ''/users'',
           headers = bearer_headers (JStr ''tok''), json_payload = None,
           params = Some [(''$filter'', user_filter (JStr ''jdoe'')),
                          (''$select'', ''id,displayName,mailNickname'')]\<rparr>])"
proof -
  have "requests_request no_user_world tr
      \<lparr>http_method = ''GET'', url = GRAPH_BASE @ ''/users'', headers = hs,
       json_payload = None, params = ps\<rparr>
    = Inr \<lparr>ok = True, status_code = 200, rtext = ''{value: ...}'',
           json_body = Some (JObj [(''value'', JArr [])])\<rparr>" for tr hs ps
    by (simp add: no_user_world_def demo_world_def demo_directory_def answer_def GRAPH_BASE_def)
  then show ?thesis
    by (simp add: graph_call_def io_bind_def no_user_token_granted send_def Let_def)
qed

text \<open>
  C2. Take a lookup that came back with a result. Its trace is the token request and the
  GET, nothing else. When the result holds no user (\<open>value\<close> is the empty list, or absent),
  the resolution raises \<^verbatim>\<open>No user found with mailNickname='...'\<close> with that same trace, and
  so does the owner block of the run: no add-owner request was made. When the result holds
  users, the first one having the object id \<open>uid\<close>, the resolution gives \<open>uid\<close> as it is;
  the add-owner request then carries the reference \<open>GRAPH_BASE\<close> followed by
  \<^verbatim>\<open>/directoryObjects/\<close> followed by \<open>uid\<close>, and the owner block of the run continues with
  that request from the trace of the lookup.
\<close>

theorem owner_resolution:
  assumes lookup: "graph_call ''GET'' ''/users'' None
        (Some [(''$filter'', user_filter a), (''$select'', ''id,displayName,mailNickname'')])
        w tr = (Inr result, tr1)"
  shows "(\<exists>tok. tr1 = tr @ [Token (confidential_client w),
              Http \<lparr>http_method = ''GET'', url = GRAPH_BASE @ ''/users'',
                    headers = bearer_headers tok, json_payload = None,
                    params = Some [(''$filter'', user_filter a),
                                   (''$select'', ''id,displayName,mailNickname'')]\<rparr>])
    \<and> (get_default result ''value'' (JArr []) = Inr (JArr []) \<longrightarrow>
          resolve_user_by_mailnickname a w tr =
            (Inl (Exception_str (''No user found with mailNickname='' @ [CHR 0x27] @ py_str a
                                 @ [CHR 0x27])), tr1)
        \<and> (truthy a \<and> of_opt (environ w ''OWNER_MAILNICKNAME'') = a \<longrightarrow>
             main_resolve_and_add_owner app w tr =
               (Inl (Exception_str (''No user found with mailNickname='' @ [CHR 0x27] @ py_str a
                                    @ [CHR 0x27])), tr1)))
    \<and> (\<forall>u us uid. get_default result ''value'' (JArr []) = Inr (JArr (u # us))
                   \<and> getitem u ''id'' = Inr uid \<longrightarrow>
          resolve_user_by_mailnickname a w tr = (Inr uid, tr1)
        \<and> (\<forall>oid tok tr2. get_token w tr1 = (Inr tok, tr2) \<longrightarrow>
              snd (add_owner oid uid w tr1) =
                tr2 @ [Http \<lparr>http_method = ''POST'',
                   url = GRAPH_BASE @ ''/applications/'' @ py_str oid @ ''/owners/$ref'',
                   headers = bearer_headers tok,
                   json_payload = Some (JObj [(''@odata.id'',
                       JStr (GRAPH_BASE @ ''/directoryObjects/'' @ py_str uid))]),
                   params = None\<rparr>])
        \<and> (\<forall>oid. truthy a \<and> of_opt (environ w ''OWNER_MAILNICKNAME'') = a
                   \<and> getitem app ''id'' = Inr oid \<longrightarrow>
              main_resolve_and_add_owner app w tr =
                io_bind (add_owner oid uid) (\<lambda>_. print (OwnerAdded (py_str a) uid)) w tr1))"
proof (intro conjI allI impI)
  show "\<exists>tok. tr1 = tr @ [Token (confidential_client w),
              Http \<lparr>http_method = ''GET'', url = GRAPH_BASE @ ''/users'',
                    headers = bearer_headers tok, json_payload = None,
                    params = Some [(''$filter'', user_filter a),
                                   (''$select'', ''id,displayName,mailNickname'')]\<rparr>]"
    using lookup by (elim graph_call_Inr) blast
next
  assume none: "get_default result ''value'' (JArr []) = Inr (JArr [])"
  show r: "resolve_user_by_mailnickname a w tr =
            (Inl (Exception_str (''No user found with mailNickname='' @ [CHR 0x27] @ py_str a
                                 @ [CHR 0x27])), tr1)"
    using lookup none
    by (simp add: resolve_user_by_mailnickname_def io_bind_def truthy_def)
  show "main_resolve_and_add_owner app w tr =
               (Inl (Exception_str (''No user found with mailNickname='' @ [CHR 0x27] @ py_str a
                                    @ [CHR 0x27])), tr1)"
    if "truthy a \<and> of_opt (environ w ''OWNER_MAILNICKNAME'') = a"
    using that r by (simp add: main_resolve_and_add_owner_def io_bind_def)
next
  fix u us uid
  assume some: "get_default result ''value'' (JArr []) = Inr (JArr (u # us))
                   \<and> getitem u ''id'' = Inr uid"
  show r: "resolve_user_by_mailnickname a w tr = (Inr uid, tr1)"
    using lookup some
    by (simp add: resolve_user_by_mailnickname_def io_bind_def truthy_def getitem0_def)
  show "snd (add_owner oid uid w tr1) =
                tr2 @ [Http \<lparr>http_method = ''POST'',
                   url = GRAPH_BASE @ ''/applications/'' @ py_str oid @ ''/owners/$ref'',
                   headers = bearer_headers tok,
                   json_payload = Some (JObj [(''@odata.id'',
                       JStr (GRAPH_BASE @ ''/directoryObjects/'' @ py_str uid))]),
                   params = None\<rparr>]"
    if "get_token w tr1 = (Inr tok, tr2)" for oid tok tr2
    unfolding add_owner_def Let_def using that by (rule graph_call_granted)
  show "main_resolve_and_add_owner app w tr =
                io_bind (add_owner oid uid) (\<lambda>_. print (OwnerAdded (py_str a) uid)) w tr1"
    if "truthy a \<and> of_opt (environ w ''OWNER_MAILNICKNAME'') = a
                   \<and> getitem app ''id'' = Inr oid" for oid
    using that r by (simp add: main_resolve_and_add_owner_def io_bind_def)
qed

theorem owner_resolution_witness:
  "resolve_user_by_mailnickname (JStr ''jdoe'') no_user_world [] =
     (Inl (Exception_str (''No user found with mailNickname='jdoe'' @ [CHR 0x27])),
      [Token (confidential_client no_user_world),
       Http \<lparr>http_method = ''GET'', url = GRAPH_BASE @ ''/users'',
             headers = bearer_headers (JStr ''tok''), json_payload = None,
             params = Some [(''$filter'', user_filter (JStr ''jdoe'')),
                            (''$select'', ''id,displayName,mailNickname'')]\<rparr>])
   \<and> fst (main_resolve_and_add_owner (JObj [(''id'', JStr ''obj-1'')]) no_user_world []) =
       Inl (Exception_str (''No user found with mailNickname='jdoe'' @ [CHR 0x27]))
   \<and> fst (resolve_user_by_mailnickname (JStr ''jdoe'') demo_world []) = Inr (JStr ''u-123'')
   \<and> snd (add_owner (JStr ''obj-1'') (JStr ''u-123'') demo_world
            [Token (confidential_client demo_world),
             Http \<lparr>http_method = ''GET'', url = GRAPH_BASE @ ''/users'',
                   headers = bearer_headers (JStr ''tok''), json_payload = None,
                   params = Some [(''$filter'', user_filter (JStr ''jdoe'')),
                                  (''$select'', ''id,displayName,mailNickname'')]\<rparr>]) =
       [Token (confidential_client demo_world),
        Http \<lparr>http_method = ''GET'', url = GRAPH_BASE @ ''/users'',
              headers = bearer_headers (JStr ''tok''), json_payload = None,
              params = Some [(''$filter'', user_filter (JStr ''jdoe'')),
                             (''$select'', ''id,displayName,mailNickname'')]\<rparr>,
        Token (confidential_client demo_world),
        Http \<lparr>http_method = ''POST'',
              url = ''https://graph.microsoft.com/v1.0/applications/obj-1/owners/$ref'',
              headers = bearer_headers (JStr ''tok''),
              json_payload = Some (JObj [(''@odata.id'',
                  JStr ''https://graph.microsoft.com/v1.0/directoryObjects/u-123'')]),
              params = None\<rparr>]"
proof -
  note zero = owner_resolution [OF no_user_lookup, of "JObj [(''id'', JStr ''obj-1'')]"]
  note one = owner_resolution [OF demo_lookup, of "JObj [(''id'', JStr ''obj-1'')]"]
  have empty: "get_default (JObj [(''value'', JArr [])]) ''value'' (JArr []) = Inr (JArr [])"
    by (simp add: get_default_def)
  have configured: "truthy (JStr ''jdoe'') \<and>
      of_opt (environ no_user_world ''OWNER_MAILNICKNAME'') = JStr ''jdoe''"
    by (simp add: truthy_def of_opt_def no_user_world_def demo_world_def demo_environ_def)
  have 1: "resolve_user_by_mailnickname (JStr ''jdoe'') no_user_world [] =
     (Inl (Exception_str (''No user found with mailNickname='jdoe'' @ [CHR 0x27])),
      [Token (confidential_client no_user_world),
       Http \<lparr>http_method = ''GET'', url = GRAPH_BASE @ ''/users'',
             headers = bearer_headers (JStr ''tok''), json_payload = None,
             params = Some [(''$filter'', user_filter (JStr ''jdoe'')),
                            (''$select'', ''id,displayName,mailNickname'')]\<rparr>])"
    using zero empty by (simp add: py_str_def)
  have 2: "fst (main_resolve_and_add_owner (JObj [(''id'', JStr ''obj-1'')]) no_user_world []) =
       Inl (Exception_str (''No user found with mailNickname='jdoe'' @ [CHR 0x27]))"
    using zero empty configured by (simp add: py_str_def)
  have found: "get_default (JObj [(''value'', one_user)]) ''value'' (JArr []) =
      Inr (JArr (JObj [(''id'', JStr ''u-123''), (''displayName'', JStr ''J. Doe''),
                       (''mailNickname'', JStr ''jdoe'')] # []))
    \<and> getitem (JObj [(''id'', JStr ''u-123''), (''displayName'', JStr ''J. Doe''),
                     (''mailNickname'', JStr ''jdoe'')]) ''id'' = Inr (JStr ''u-123'')"
    by (simp add: get_default_def one_user_def getitem_def)
  have 3: "fst (resolve_user_by_mailnickname (JStr ''jdoe'') demo_world []) = Inr (JStr ''u-123'')"
    using one found by simp
  have 4: "snd (add_owner (JStr ''obj-1'') (JStr ''u-123'') demo_world
              [Token (confidential_client demo_world),
     Http \<lparr>http_method = ''GET'', url = GRAPH_BASE @ ''/users'',
           headers = bearer_headers (JStr ''tok''), json_payload = None,
           params = Some [(''$filter'', user_filter (JStr ''jdoe'')),
                          (''$select'', ''id,displayName,mailNickname'')]\<rparr>]) =
       [Token (confidential_client demo_world),
     Http \<lparr>http_method = ''GET'', url = GRAPH_BASE @ ''/users'',
           headers = bearer_headers (JStr ''tok''), json_payload = None,
           params = Some [(''$filter'', user_filter (JStr ''jdoe'')),
                          (''$select'', ''id,displayName,mailNickname'')]\<rparr>,
        Token (confidential_client demo_world),
        Http \<lparr>http_method = ''POST'',
              url = ''https://graph.microsoft.com/v1.0/applications/obj-1/owners/$ref'',
              headers = bearer_headers (JStr ''tok''),
              json_payload = Some (JObj [(''@odata.id'',
                  JStr ''https://graph.microsoft.com/v1.0/directoryObjects/u-123'')]),
              params = None\<rparr>]"
    using one found demo_token_granted by (simp add: py_str_def GRAPH_BASE_def)
  show ?thesis using 1 2 3 4 by blast
qed

section \<open>A block that returned\<close>

lemma add_secret_Inr:
  assumes "add_secret oid w tr = (Inr v, tr')"
  obtains tok where
    "tr' = tr @ [Token (confidential_client w),
                 Http \<lparr>http_method = ''POST'',
                       url = GRAPH_BASE @ ''/applications/'' @ py_str oid @ ''/addPassword'',
                       headers = bearer_headers tok,
                       json_payload = Some (JObj [(''passwordCredential'',
                                              JObj [(''displayName'', JStr ''auto-secret'')])]),
                       params = None\<rparr>]"
proof -
  from assms obtain tok tr1 where tok: "get_token w tr = (Inr tok, tr1)"
    unfolding add_secret_def by (elim io_bind_InrE)
  then have tr1: "tr1 = tr @ [Token (confidential_client w)]"
    by (rule get_token_eq)
  have "snd (add_secret oid w tr) = tr1 @ [Http \<lparr>http_method = ''POST'',
                       url = GRAPH_BASE @ ''/applications/'' @ py_str oid @ ''/addPassword'',
                       headers = bearer_headers tok,
                       json_payload = Some (JObj [(''passwordCredential'',
                                              JObj [(''displayName'', JStr ''auto-secret'')])]),
                       params = None\<rparr>]"
    using tok
    by (simp add: add_secret_def io_bind_def send_def Let_def split: sum.splits option.splits)
  then show ?thesis using that assms tr1 by simp
qed

lemma main_create_app_Inr:
  assumes "main_create_app w tr = (Inr app, tr')"
  obtains tok client where "getitem app ''appId'' = Inr client"
    "tr' = tr @ [Token (confidential_client w),
       Http \<lparr>http_method = ''POST'', url = GRAPH_BASE @ ''/applications'',
         headers = bearer_headers tok,
         json_payload = Some (JObj [(''displayName'', of_opt (environ w ''APP_DISPLAY_NAME'')),
                       (''signInAudience'', JStr ''AzureADMyOrg''),
                       (''web'', JObj [(''redirectUris'', JArr (map JStr (redirect_uris_list w)))]),
                       (''notes'', of_opt (environ w ''NOTES_TEXT''))]),
         params = None\<rparr>,
       Print (ApplicationCreated client)]"
  using assms unfolding main_create_app_def create_app_def Let_def
  by (elim io_bind_InrE graph_call_Inr) auto

lemma main_add_secret_Inr:
  assumes "main_add_secret app w tr = (Inr u, tr')"
  obtains tok oid secret_text where "getitem app ''id'' = Inr oid"
    "tr' = tr @ [Token (confidential_client w),
       Http \<lparr>http_method = ''POST'',
             url = GRAPH_BASE @ ''/applications/'' @ py_str oid @ ''/addPassword'',
             headers = bearer_headers tok,
             json_payload = Some (JObj [(''passwordCredential'',
                                    JObj [(''displayName'', JStr ''auto-secret'')])]),
             params = None\<rparr>,
       Print (ClientSecret secret_text)]"
  using assms unfolding main_add_secret_def
  by (elim io_bind_InrE add_secret_Inr) auto

lemma main_create_service_principal_Inr:
  assumes "main_create_service_principal app w tr = (Inr u, tr')"
  obtains tok client sp_id where "getitem app ''appId'' = Inr client"
    "tr' = tr @ [Token (confidential_client w),
       Http \<lparr>http_method = ''POST'', url = GRAPH_BASE @ ''/servicePrincipals'',
             headers = bearer_headers tok,
             json_payload = Some (JObj [(''appId'', client), (''accountEnabled'', JBool True)]),
             params = None\<rparr>,
       Print (ServicePrincipalCreated sp_id)]"
  using assms unfolding main_create_service_principal_def create_service_principal_def
  by (elim io_bind_InrE graph_call_Inr) auto

lemma resolve_Inr:
  assumes "resolve_user_by_mailnickname a w tr = (Inr uid, tr')"
  obtains tok where
    "tr' = tr @ [Token (confidential_client w),
       Http \<lparr>http_method = ''GET'', url = GRAPH_BASE @ ''/users'',
             headers = bearer_headers tok, json_payload = None,
             params = Some [(''$filter'', user_filter a),
                            (''$select'', ''id,displayName,mailNickname'')]\<rparr>]"
proof -
  from assms obtain result tr1 where
    lookup: "graph_call ''GET'' ''/users'' None
        (Some [(''$filter'', user_filter a), (''$select'', ''id,displayName,mailNickname'')])
        w tr = (Inr result, tr1)"
    unfolding resolve_user_by_mailnickname_def Let_def by (elim io_bind_InrE)
  have "tr' = tr1"
    using resolve_trace [of a w tr] assms lookup by simp
  with lookup show ?thesis
    by (elim graph_call_Inr) (rule that, simp)
qed

lemma main_owner_skipped:
  "\<not> truthy (of_opt (environ w ''OWNER_MAILNICKNAME'')) \<Longrightarrow>
   main_resolve_and_add_owner app w tr = (Inr (), tr @ [Print OwnerSkipped])"
  by (simp add: main_resolve_and_add_owner_def)

lemma main_owner_added_Inr:
  assumes "truthy (of_opt (environ w ''OWNER_MAILNICKNAME''))"
    and "main_resolve_and_add_owner app w tr = (Inr u, tr')"
  obtains tok tok' oid owner_id where "getitem app ''id'' = Inr oid"
    "tr' = tr @ [Token (confidential_client w),
       Http \<lparr>http_method = ''GET'', url = GRAPH_BASE @ ''/users'',
             headers = bearer_headers tok, json_payload = None,
             params = Some [(''$filter'', user_filter (of_opt (environ w ''OWNER_MAILNICKNAME''))),
                            (''$select'', ''id,displayName,mailNickname'')]\<rparr>,
       Token (confidential_client w),
       Http \<lparr>http_method = ''POST'',
             url = GRAPH_BASE @ ''/applications/'' @ py_str oid @ ''/owners/$ref'',
             headers = bearer_headers tok',
             json_payload = Some (JObj [(''@odata.id'',
                 JStr (GRAPH_BASE @ ''/directoryObjects/'' @ py_str owner_id))]),
             params = None\<rparr>,
       Print (OwnerAdded (py_str (of_opt (environ w ''OWNER_MAILNICKNAME''))) owner_id)]"
  using assms unfolding main_resolve_and_add_owner_def add_owner_def Let_def
  by (simp only: if_True) (elim io_bind_InrE graph_call_Inr resolve_Inr, auto)

lemma main_add_api_permissions_Inr:
  assumes "main_add_api_permissions app w tr = (Inr u, tr')"
  obtains tok oid where "getitem app ''id'' = Inr oid"
    "tr' = tr @ [Token (confidential_client w),
       Http \<lparr>http_method = ''PATCH'', url = GRAPH_BASE @ ''/applications/'' @ py_str oid,
         headers = bearer_headers tok,
         json_payload = Some (JObj [(''requiredResourceAccess'',
                        JArr [JObj [(''resourceAppId'',
                                     JStr ''00000003-0000-0000-c000-000000000000''),
                                    (''resourceAccess'', JArr permissions)]])]),
         params = None\<rparr>,
       Print PermissionsAdded]"
  using assms unfolding main_add_api_permissions_def add_api_permissions_def Let_def
  by (elim io_bind_InrE graph_call_Inr) auto

lemma main_update_internal_notes_Inr:
  assumes "main_update_internal_notes app w tr = (Inr u, tr')"
  obtains tok oid where "getitem app ''id'' = Inr oid"
    "tr' = tr @ [Token (confidential_client w),
       Http \<lparr>http_method = ''PATCH'', url = GRAPH_BASE @ ''/applications/'' @ py_str oid,
         headers = bearer_headers tok,
         json_payload = Some (JObj [(''notes'', JStr ''Updated notes: now managed by CloudOps'')]),
         params = None\<rparr>,
       Print NotesUpdated]"
  using assms unfolding main_update_internal_notes_def update_internal_notes_def Let_def
  by (elim io_bind_InrE graph_call_Inr) auto

section \<open>The requests of each block\<close>

lemma emits_bind_result:
  assumes m: "emits w Q m"
    and f: "\<And>x tr tr1. m w tr = (Inr x, tr1) \<Longrightarrow> emits w Q (f x)"
  shows "emits w Q (io_bind m f)"
proof (rule emitsI)
  fix tr
  obtain evs where evs: "snd (m w tr) = tr @ evs" "list_all Q (http_requests evs)"
    using emitsD [OF m] by blast
  show "\<exists>evs. snd (io_bind m f w tr) = tr @ evs \<and> list_all Q (http_requests evs)"
  proof (cases "fst (m w tr)")
    case (Inl e)
    then have "io_bind m f w tr = (Inl e, tr @ evs)"
      using evs(1) by (intro io_bind_Inl) (simp add: prod_eq_iff)
    then show ?thesis using evs(2) by auto
  next
    case (Inr x)
    then have run: "m w tr = (Inr x, tr @ evs)"
      using evs(1) by (simp add: prod_eq_iff)
    then have eq: "io_bind m f w tr = f x w (tr @ evs)"
      by (rule io_bind_Inr)
    obtain evs' where evs': "snd (f x w (tr @ evs)) = (tr @ evs) @ evs'"
        "list_all Q (http_requests evs')"
      using emitsD [OF f [OF run]] by blast
    have "snd (io_bind m f w tr) = tr @ (evs @ evs')"
      using eq evs'(1) by simp
    moreover have "list_all Q (http_requests (evs @ evs'))"
      using evs(2) evs'(2) by simp
    ultimately show ?thesis by blast
  qed
qed

lemma emits_main_create_app:
  assumes "\<And>tok. Q \<lparr>http_method = ''POST'', url = GRAPH_BASE @ ''/applications'',
         headers = bearer_headers tok,
         json_payload = Some (JObj [(''displayName'', of_opt (environ w ''APP_DISPLAY_NAME'')),
                       (''signInAudience'', JStr ''AzureADMyOrg''),
                       (''web'', JObj [(''redirectUris'', JArr (map JStr (redirect_uris_list w)))]),
                       (''notes'', of_opt (environ w ''NOTES_TEXT''))]),
         params = None\<rparr>"
  shows "emits w Q main_create_app"
  unfolding main_create_app_def create_app_def Let_def
  by (rule emits_world)
     (intro emits_bind emits_lift emits_print emits_return emits_graph_call assms)

lemma emits_main_add_secret:
  assumes "\<And>tok oid. getitem app ''id'' = Inr oid \<Longrightarrow> Q \<lparr>http_method = ''POST'',
         url = GRAPH_BASE @ ''/applications/'' @ py_str oid @ ''/addPassword'',
         headers = bearer_headers tok,
         json_payload = Some (JObj [(''passwordCredential'',
                                     JObj [(''displayName'', JStr ''auto-secret'')])]),
         params = None\<rparr>"
  shows "emits w Q (main_add_secret app)"
  unfolding main_add_secret_def
proof (rule emits_bind_result)
  show "emits w Q (io_lift (getitem app ''id''))" by simp
next
  fix x tr tr1 assume "io_lift (getitem app ''id'') w tr = (Inr x, tr1)"
  then have "getitem app ''id'' = Inr x" by simp
  then show "emits w Q (io_bind (add_secret x) (\<lambda>secret.
      io_bind (io_lift (getitem secret ''secretText'')) (\<lambda>secret_text.
      print (ClientSecret secret_text))))"
    by (intro emits_bind emits_lift emits_print emits_add_secret assms)
qed

lemma emits_main_create_service_principal:
  assumes "\<And>tok c. Q \<lparr>http_method = ''POST'', url = GRAPH_BASE @ ''/servicePrincipals'',
         headers = bearer_headers tok,
         json_payload = Some (JObj [(''appId'', c), (''accountEnabled'', JBool True)]),
         params = None\<rparr>"
  shows "emits w Q (main_create_service_principal app)"
  unfolding main_create_service_principal_def create_service_principal_def
  by (intro emits_bind emits_lift emits_print emits_return emits_graph_call assms)

lemma emits_resolve:
  assumes "\<And>tok. Q \<lparr>http_method = ''GET'', url = GRAPH_BASE @ ''/users'',
         headers = bearer_headers tok, json_payload = None,
         params = Some [(''$filter'', user_filter a),
                        (''$select'', ''id,displayName,mailNickname'')]\<rparr>"
  shows "emits w Q (resolve_user_by_mailnickname a)"
  unfolding resolve_user_by_mailnickname_def Let_def
  by (intro emits_bind emits_lift emits_raise emits_if emits_graph_call assms)

lemma emits_main_add_api_permissions:
  assumes "\<And>tok oid. Q \<lparr>http_method = ''PATCH'',
         url = GRAPH_BASE @ ''/applications/'' @ py_str oid,
         headers = bearer_headers tok,
         json_payload = Some (JObj [(''requiredResourceAccess'',
                        JArr [JObj [(''resourceAppId'',
                                     JStr ''00000003-0000-0000-c000-000000000000''),
                                    (''resourceAccess'', JArr permissions)]])]),
         params = None\<rparr>"
  shows "emits w Q (main_add_api_permissions app)"
  unfolding main_add_api_permissions_def add_api_permissions_def Let_def
  by (intro emits_bind emits_lift emits_print emits_return emits_graph_call assms)

lemma emits_main_update_internal_notes:
  assumes "\<And>tok oid. Q \<lparr>http_method = ''PATCH'',
         url = GRAPH_BASE @ ''/applications/'' @ py_str oid,
         headers = bearer_headers tok,
         json_payload = Some (JObj [(''notes'', JStr ''Updated notes: now managed by CloudOps'')]),
         params = None\<rparr>"
  shows "emits w Q (main_update_internal_notes app)"
  unfolding main_update_internal_notes_def update_internal_notes_def Let_def
  by (intro emits_bind emits_lift emits_print emits_return emits_graph_call assms)

lemma emits_main_resolve_and_add_owner:
  assumes "\<And>tok. truthy (of_opt (environ w ''OWNER_MAILNICKNAME'')) \<Longrightarrow>
       Q \<lparr>http_method = ''GET'', url = GRAPH_BASE @ ''/users'',
         headers = bearer_headers tok, json_payload = None,
         params = Some [(''$filter'', user_filter (of_opt (environ w ''OWNER_MAILNICKNAME''))),
                        (''$select'', ''id,displayName,mailNickname'')]\<rparr>"
    and "\<And>tok oid u. truthy (of_opt (environ w ''OWNER_MAILNICKNAME'')) \<Longrightarrow>
       Q \<lparr>http_method = ''POST'',
         url = GRAPH_BASE @ ''/applications/'' @ py_str oid @ ''/owners/$ref'',
         headers = bearer_headers tok,
         json_payload = Some (JObj [(''@odata.id'',
                          JStr (GRAPH_BASE @ ''/directoryObjects/'' @ py_str u))]),
         params = None\<rparr>"
  shows "emits w Q (main_resolve_and_add_owner app)"
proof (cases "truthy (of_opt (environ w ''OWNER_MAILNICKNAME''))")
  case True
  have "emits w Q (io_bind (resolve_user_by_mailnickname (of_opt (environ w ''OWNER_MAILNICKNAME'')))
         (\<lambda>owner_id. io_bind (io_lift (getitem app ''id'')) (\<lambda>oid.
            io_bind (add_owner oid owner_id) (\<lambda>_.
            print (OwnerAdded (py_str (of_opt (environ w ''OWNER_MAILNICKNAME''))) owner_id)))))"
    unfolding add_owner_def Let_def
    by (intro emits_bind emits_lift emits_print emits_resolve emits_graph_call
        assms(1) [OF True] assms(2) [OF True])
  then show ?thesis
    unfolding main_resolve_and_add_owner_def Let_def
    using True by (simp add: emits_def)
next
  case False
  then show ?thesis
    unfolding main_resolve_and_add_owner_def Let_def
    by (simp add: emits_def print_def)
qed

lemma suffix_last: "suffix a b \<Longrightarrow> a \<noteq> [] \<Longrightarrow> last b = last a"
  by (auto simp: suffix_def)

lemma not_add_secret:
  "\<not> is_add_secret \<lparr>http_method = ''POST'', url = GRAPH_BASE @ ''/applications'',
       headers = hs, json_payload = p, params = q\<rparr>"
  "\<not> is_add_secret \<lparr>http_method = ''POST'', url = GRAPH_BASE @ ''/servicePrincipals'',
       headers = hs, json_payload = p, params = q\<rparr>"
  "\<not> is_add_secret \<lparr>http_method = ''POST'',
       url = GRAPH_BASE @ ''/applications/'' @ x @ ''/owners/$ref'',
       headers = hs, json_payload = p, params = q\<rparr>"
  "\<not> is_add_secret \<lparr>http_method = ''GET'', url = u, headers = hs, json_payload = p, params = q\<rparr>"
  "\<not> is_add_secret \<lparr>http_method = ''PATCH'', url = u, headers = hs, json_payload = p, params = q\<rparr>"
  using suffix_last [of "''/addPassword''"]
  by (fastforce simp: is_add_secret_def)+

lemma not_add_owner:
  "\<not> is_add_owner \<lparr>http_method = ''POST'', url = GRAPH_BASE @ ''/applications'',
       headers = hs, json_payload = p, params = q\<rparr>"
  "\<not> is_add_owner \<lparr>http_method = ''POST'', url = GRAPH_BASE @ ''/servicePrincipals'',
       headers = hs, json_payload = p, params = q\<rparr>"
  "\<not> is_add_owner \<lparr>http_method = ''POST'',
       url = GRAPH_BASE @ ''/applications/'' @ x @ ''/addPassword'',
       headers = hs, json_payload = p, params = q\<rparr>"
  "\<not> is_add_owner \<lparr>http_method = ''GET'', url = u, headers = hs, json_payload = p, params = q\<rparr>"
  "\<not> is_add_owner \<lparr>http_method = ''PATCH'', url = u, headers = hs, json_payload = p, params = q\<rparr>"
  using suffix_last [of "''/owners/$ref''"]
  by (fastforce simp: is_add_owner_def)+

section \<open>The completed run\<close>

lemma main_after_create:
  "main_create_app w [] = (Inr app, tr1) \<Longrightarrow>
   main w [] =
     io_bind (main_add_secret app) (\<lambda>_.
     io_bind (main_create_service_principal app) (\<lambda>_.
     io_bind (main_resolve_and_add_owner app) (\<lambda>_.
     io_bind (main_add_api_permissions app) (\<lambda>_.
     main_update_internal_notes app)))) w tr1"
  unfolding main_def by (rule io_bind_Inr)

lemma main_create_failed:
  "main_create_app w [] = (Inl e, tr1) \<Longrightarrow> main w [] = (Inl e, tr1)"
  unfolding main_def by (rule io_bind_Inl)

lemma create_app_response:
  assumes "main_create_app w [] = (Inr app, tr1)"
  shows "\<exists>tok r. requests_request w [Token (confidential_client w)]
        \<lparr>http_method = ''POST'', url = GRAPH_BASE @ ''/applications'',
         headers = bearer_headers tok,
         json_payload = Some (JObj [(''displayName'', of_opt (environ w ''APP_DISPLAY_NAME'')),
                       (''signInAudience'', JStr ''AzureADMyOrg''),
                       (''web'', JObj [(''redirectUris'', JArr (map JStr (redirect_uris_list w)))]),
                       (''notes'', of_opt (environ w ''NOTES_TEXT''))]),
         params = None\<rparr> = Inr r
      \<and> ok r \<and> json_body r = Some app"
proof -
  from assms obtain client where client: "getitem app ''appId'' = Inr client"
    by (elim main_create_app_Inr)
  from assms obtain tr0 where
    call: "create_app (of_opt (environ w ''APP_DISPLAY_NAME'')) (redirect_uris_list w)
             (of_opt (environ w ''NOTES_TEXT'')) w [] = (Inr app, tr0)"
    unfolding main_create_app_def Let_def by (elim io_bind_InrE) auto
  then obtain tok where tok: "get_token w [] = (Inr tok, [Token (confidential_client w)])"
    unfolding create_app_def Let_def by (elim graph_call_Inr) simp
  have "app \<noteq> JObj []"
    using client by (auto simp: getitem_def)
  then show ?thesis
    using call tok
    by (auto simp: create_app_def graph_call_def io_bind_def send_def Let_def
        split: sum.splits option.splits if_splits)
qed

lemma main_InrE:
  assumes "main w [] = (Inr u, tr)"
  obtains app tr1 tr2 tr3 tr4 tr5 where
    "main_create_app w [] = (Inr app, tr1)"
    "main_add_secret app w tr1 = (Inr (), tr2)"
    "main_create_service_principal app w tr2 = (Inr (), tr3)"
    "main_resolve_and_add_owner app w tr3 = (Inr (), tr4)"
    "main_add_api_permissions app w tr4 = (Inr (), tr5)"
    "main_update_internal_notes app w tr5 = (Inr (), tr)"
  using assms unfolding main_def by (elim io_bind_InrE) auto

lemma completed_run:
  assumes "main w [] = (Inr u, tr)"
  obtains app tr1 oid client tok1 tok2 tok3 tok5 tok6 owner_part where
    "main_create_app w [] = (Inr app, tr1)"
    "getitem app ''id'' = Inr oid"
    "getitem app ''appId'' = Inr client"
    "http_requests tr =
       [\<lparr>http_method = ''POST'', url = GRAPH_BASE @ ''/applications'',
         headers = bearer_headers tok1,
         json_payload = Some (JObj [(''displayName'', of_opt (environ w ''APP_DISPLAY_NAME'')),
                       (''signInAudience'', JStr ''AzureADMyOrg''),
                       (''web'', JObj [(''redirectUris'', JArr (map JStr (redirect_uris_list w)))]),
                       (''notes'', of_opt (environ w ''NOTES_TEXT''))]),
         params = None\<rparr>,
        \<lparr>http_method = ''POST'',
         url = GRAPH_BASE @ ''/applications/'' @ py_str oid @ ''/addPassword'',
         headers = bearer_headers tok2,
         json_payload = Some (JObj [(''passwordCredential'',
                                JObj [(''displayName'', JStr ''auto-secret'')])]),
         params = None\<rparr>,
        \<lparr>http_method = ''POST'', url = GRAPH_BASE @ ''/servicePrincipals'',
         headers = bearer_headers tok3,
         json_payload = Some (JObj [(''appId'', client), (''accountEnabled'', JBool True)]),
         params = None\<rparr>]
       @ owner_part @
       [\<lparr>http_method = ''PATCH'', url = GRAPH_BASE @ ''/applications/'' @ py_str oid,
         headers = bearer_headers tok5,
         json_payload = Some (JObj [(''requiredResourceAccess'',
                        JArr [JObj [(''resourceAppId'',
                                     JStr ''00000003-0000-0000-c000-000000000000''),
                                    (''resourceAccess'', JArr permissions)]])]),
         params = None\<rparr>,
        \<lparr>http_method = ''PATCH'', url = GRAPH_BASE @ ''/applications/'' @ py_str oid,
         headers = bearer_headers tok6,
         json_payload = Some (JObj [(''notes'', JStr ''Updated notes: now managed by CloudOps'')]),
         params = None\<rparr>]"
    "\<not> truthy (of_opt (environ w ''OWNER_MAILNICKNAME'')) \<Longrightarrow> owner_part = []"
    "truthy (of_opt (environ w ''OWNER_MAILNICKNAME'')) \<Longrightarrow>
       \<exists>tok tok' owner_id. owner_part =
        [\<lparr>http_method = ''GET'', url = GRAPH_BASE @ ''/users'',
          headers = bearer_headers tok, json_payload = None,
          params = Some [(''$filter'', user_filter (of_opt (environ w ''OWNER_MAILNICKNAME''))),
                         (''$select'', ''id,displayName,mailNickname'')]\<rparr>,
         \<lparr>http_method = ''POST'',
          url = GRAPH_BASE @ ''/applications/'' @ py_str oid @ ''/owners/$ref'',
          headers = bearer_headers tok',
          json_payload = Some (JObj [(''@odata.id'',
              JStr (GRAPH_BASE @ ''/directoryObjects/'' @ py_str owner_id))]),
          params = None\<rparr>]"
proof -
  from assms obtain app tr1 tr2 tr3 tr4 tr5 where
    b1: "main_create_app w [] = (Inr app, tr1)"
    and b2: "main_add_secret app w tr1 = (Inr (), tr2)"
    and b3: "main_create_service_principal app w tr2 = (Inr (), tr3)"
    and b4: "main_resolve_and_add_owner app w tr3 = (Inr (), tr4)"
    and b5: "main_add_api_permissions app w tr4 = (Inr (), tr5)"
    and b6: "main_update_internal_notes app w tr5 = (Inr (), tr)"
    by (rule main_InrE)
  from b1 obtain tok1 c1 where
    r1: "http_requests tr1 = [\<lparr>http_method = ''POST'', url = GRAPH_BASE @ ''/applications'',
         headers = bearer_headers tok1,
         json_payload = Some (JObj [(''displayName'', of_opt (environ w ''APP_DISPLAY_NAME'')),
                       (''signInAudience'', JStr ''AzureADMyOrg''),
                       (''web'', JObj [(''redirectUris'', JArr (map JStr (redirect_uris_list w)))]),
                       (''notes'', of_opt (environ w ''NOTES_TEXT''))]),
         params = None\<rparr>]"
    by (elim main_create_app_Inr) simp
  from b2 obtain tok2 oid where oid: "getitem app ''id'' = Inr oid"
    and r2: "http_requests tr2 = http_requests tr1 @ [\<lparr>http_method = ''POST'',
         url = GRAPH_BASE @ ''/applications/'' @ py_str oid @ ''/addPassword'',
         headers = bearer_headers tok2,
         json_payload = Some (JObj [(''passwordCredential'',
                                JObj [(''displayName'', JStr ''auto-secret'')])]),
         params = None\<rparr>]"
    by (elim main_add_secret_Inr) simp
  from b3 obtain tok3 client where client: "getitem app ''appId'' = Inr client"
    and r3: "http_requests tr3 = http_requests tr2 @
       [\<lparr>http_method = ''POST'', url = GRAPH_BASE @ ''/servicePrincipals'',
         headers = bearer_headers tok3,
         json_payload = Some (JObj [(''appId'', client), (''accountEnabled'', JBool True)]),
         params = None\<rparr>]"
    by (elim main_create_service_principal_Inr) simp
  define owner_part where "owner_part = http_requests (drop (length tr3) tr4)"
  have ext: "\<exists>evs. tr4 = tr3 @ evs"
  proof -
    have "emits w (\<lambda>r. True) (main_resolve_and_add_owner app)"
      by (rule emits_main_resolve_and_add_owner) simp_all
    from emitsD [OF this, of tr3] b4 show ?thesis by auto
  qed
  then have r4: "http_requests tr4 = http_requests tr3 @ owner_part"
    unfolding owner_part_def by auto
  from b5 obtain tok5 oid5 where oid5: "getitem app ''id'' = Inr oid5"
    and r5: "http_requests tr5 = http_requests tr4 @
       [\<lparr>http_method = ''PATCH'', url = GRAPH_BASE @ ''/applications/'' @ py_str oid5,
         headers = bearer_headers tok5,
         json_payload = Some (JObj [(''requiredResourceAccess'',
                        JArr [JObj [(''resourceAppId'',
                                     JStr ''00000003-0000-0000-c000-000000000000''),
                                    (''resourceAccess'', JArr permissions)]])]),
         params = None\<rparr>]"
    by (elim main_add_api_permissions_Inr) simp
  from b6 obtain tok6 oid6 where oid6: "getitem app ''id'' = Inr oid6"
    and r6: "http_requests tr = http_requests tr5 @
       [\<lparr>http_method = ''PATCH'', url = GRAPH_BASE @ ''/applications/'' @ py_str oid6,
         headers = bearer_headers tok6,
         json_payload = Some (JObj [(''notes'', JStr ''Updated notes: now managed by CloudOps'')]),
         params = None\<rparr>]"
    by (elim main_update_internal_notes_Inr) simp
  have same: "oid5 = oid" "oid6 = oid"
    using oid oid5 oid6 by simp_all
  have skip: "owner_part = []" if "\<not> truthy (of_opt (environ w ''OWNER_MAILNICKNAME''))"
    using main_owner_skipped [OF that, of app tr3] b4 by (simp add: owner_part_def)
  have added: "\<exists>tok tok' owner_id. owner_part =
        [\<lparr>http_method = ''GET'', url = GRAPH_BASE @ ''/users'',
          headers = bearer_headers tok, json_payload = None,
          params = Some [(''$filter'', user_filter (of_opt (environ w ''OWNER_MAILNICKNAME''))),
                         (''$select'', ''id,displayName,mailNickname'')]\<rparr>,
         \<lparr>http_method = ''POST'',
          url = GRAPH_BASE @ ''/applications/'' @ py_str oid @ ''/owners/$ref'',
          headers = bearer_headers tok',
          json_payload = Some (JObj [(''@odata.id'',
              JStr (GRAPH_BASE @ ''/directoryObjects/'' @ py_str owner_id))]),
          params = None\<rparr>]"
    if "truthy (of_opt (environ w ''OWNER_MAILNICKNAME''))"
    using that b4 oid unfolding owner_part_def
    by (elim main_owner_added_Inr) auto
  show ?thesis
    using that [OF b1 oid client _ skip added, of tok1 tok2 tok3 tok5 tok6]
      r1 r2 r3 r4 r5 r6 same
    by simp
qed

lemma demo_create:
  "fst (main_create_app demo_world []) =
     Inr (JObj [(''id'', JStr ''obj-1''), (''appId'', JStr ''cli-1'')])"
  by code_simp

section \<open>The secret request\<close>

text \<open>
  C8. In every run, a request that posts to an \<^verbatim>\<open>/addPassword\<close> URL was made after the
  application was created, and its URL is \<open>GRAPH_BASE\<close>, \<^verbatim>\<open>/applications/\<close>, the value of the
  \<^verbatim>\<open>id\<close> field of the created application, \<^verbatim>\<open>/addPassword\<close>. The created application is the
  decoded body of the answer to the creation request. In a completed run that request is the
  second one. The \<^verbatim>\<open>appId\<close> field has no part in the URL.
\<close>

theorem secret_request_uses_object_id:
  "list_all (\<lambda>r. is_add_secret r \<longrightarrow>
       (\<exists>app tr1 oid. main_create_app w [] = (Inr app, tr1) \<and> getitem app ''id'' = Inr oid \<and>
          url r = GRAPH_BASE @ ''/applications/'' @ py_str oid @ ''/addPassword''))
     (http_requests (snd (main w [])))
   \<and> (\<forall>app tr1. main_create_app w [] = (Inr app, tr1) \<longrightarrow>
        (\<exists>tok r. requests_request w [Token (confidential_client w)]
            \<lparr>http_method = ''POST'', url = GRAPH_BASE @ ''/applications'',
             headers = bearer_headers tok,
             json_payload = Some (JObj [(''displayName'', of_opt (environ w ''APP_DISPLAY_NAME'')),
                       (''signInAudience'', JStr ''AzureADMyOrg''),
                       (''web'', JObj [(''redirectUris'', JArr (map JStr (redirect_uris_list w)))]),
                       (''notes'', of_opt (environ w ''NOTES_TEXT''))]),
             params = None\<rparr> = Inr r
          \<and> ok r \<and> json_body r = Some app))
   \<and> (\<forall>tr. main w [] = (Inr (), tr) \<longrightarrow>
        (\<exists>app tr1 oid. main_create_app w [] = (Inr app, tr1) \<and> getitem app ''id'' = Inr oid \<and>
           http_method (http_requests tr ! 1) = ''POST'' \<and>
           url (http_requests tr ! 1) =
             GRAPH_BASE @ ''/applications/'' @ py_str oid @ ''/addPassword''))"
proof (intro conjI allI impI)
  let ?Q = "\<lambda>r. is_add_secret r \<longrightarrow>
       (\<exists>app tr1 oid. main_create_app w [] = (Inr app, tr1) \<and> getitem app ''id'' = Inr oid \<and>
          url r = GRAPH_BASE @ ''/applications/'' @ py_str oid @ ''/addPassword'')"
  obtain res tr1 where first: "main_create_app w [] = (res, tr1)"
    by (cases "main_create_app w []")
  have "emits w (\<lambda>r. \<not> is_add_secret r) main_create_app"
    by (rule emits_main_create_app) (rule not_add_secret)
  from emitsD [OF this, of "[]"] first
  have tr1: "list_all (\<lambda>r. \<not> is_add_secret r) (http_requests tr1)"
    by auto
  then have tr1Q: "list_all ?Q (http_requests tr1)"
    by (simp add: list_all_iff)
  show "list_all ?Q (http_requests (snd (main w [])))"
  proof (cases res)
    case (Inl e)
    then show ?thesis
      using main_create_failed first tr1Q by simp
  next
    case (Inr app)
    then have created: "main_create_app w [] = (Inr app, tr1)"
      using first by simp
    have b2: "emits w ?Q (main_add_secret app)"
      using created by (intro emits_main_add_secret) (simp only: request.select_convs, blast)
    have b3: "emits w ?Q (main_create_service_principal app)"
      by (rule emits_main_create_service_principal) (simp only: not_add_secret simp_thms)
    have b4: "emits w ?Q (main_resolve_and_add_owner app)"
      by (rule emits_main_resolve_and_add_owner) (simp_all only: not_add_secret simp_thms)
    have b5: "emits w ?Q (main_add_api_permissions app)"
      by (rule emits_main_add_api_permissions) (simp only: not_add_secret simp_thms)
    have b6: "emits w ?Q (main_update_internal_notes app)"
      by (rule emits_main_update_internal_notes) (simp only: not_add_secret simp_thms)
    have "emits w ?Q
       (io_bind (main_add_secret app) (\<lambda>_.
        io_bind (main_create_service_principal app) (\<lambda>_.
        io_bind (main_resolve_and_add_owner app) (\<lambda>_.
        io_bind (main_add_api_permissions app) (\<lambda>_.
        main_update_internal_notes app)))))"
      by (intro emits_bind b2 b3 b4 b5 b6)
    from emitsD [OF this, of tr1] main_after_create [OF created]
    obtain evs where "snd (main w []) = tr1 @ evs" "list_all ?Q (http_requests evs)"
      by auto
    then show ?thesis using tr1Q by simp
  qed
next
  fix app tr1 assume "main_create_app w [] = (Inr app, tr1)"
  then show "\<exists>tok r. requests_request w [Token (confidential_client w)]
            \<lparr>http_method = ''POST'', url = GRAPH_BASE @ ''/applications'',
             headers = bearer_headers tok,
             json_payload = Some (JObj [(''displayName'', of_opt (environ w ''APP_DISPLAY_NAME'')),
                       (''signInAudience'', JStr ''AzureADMyOrg''),
                       (''web'', JObj [(''redirectUris'', JArr (map JStr (redirect_uris_list w)))]),
                       (''notes'', of_opt (environ w ''NOTES_TEXT''))]),
             params = None\<rparr> = Inr r
          \<and> ok r \<and> json_body r = Some app"
    by (rule create_app_response)
next
  fix tr assume run: "main w [] = (Inr (), tr)"
  then show "\<exists>app tr1 oid. main_create_app w [] = (Inr app, tr1) \<and> getitem app ''id'' = Inr oid \<and>
           http_method (http_requests tr ! 1) = ''POST'' \<and>
           url (http_requests tr ! 1) =
             GRAPH_BASE @ ''/applications/'' @ py_str oid @ ''/addPassword''"
    by (elim completed_run) auto
qed

theorem secret_request_uses_object_id_witness:
  "fst (main_create_app demo_world []) =
     Inr (JObj [(''id'', JStr ''obj-1''), (''appId'', JStr ''cli-1'')])
   \<and> fst (main demo_world []) = Inr ()
   \<and> url (http_requests (snd (main demo_world [])) ! 1) =
       ''https://graph.microsoft.com/v1.0/applications/obj-1/addPassword''
   \<and> is_add_secret (http_requests (snd (main demo_world [])) ! 1)"
proof -
  have run: "main demo_world [] = (Inr (), snd (main demo_world []))"
    using demo_run_completes by (simp add: prod_eq_iff)
  from secret_request_uses_object_id [of demo_world] run
  obtain app tr1 oid where created: "main_create_app demo_world [] = (Inr app, tr1)"
    and oid: "getitem app ''id'' = Inr oid"
    and u: "url (http_requests (snd (main demo_world [])) ! 1) =
             GRAPH_BASE @ ''/applications/'' @ py_str oid @ ''/addPassword''"
    by blast
  have "app = JObj [(''id'', JStr ''obj-1''), (''appId'', JStr ''cli-1'')]"
    using created demo_create by simp
  then have "oid = JStr ''obj-1''"
    using oid by (simp add: getitem_def)
  then have 1: "url (http_requests (snd (main demo_world [])) ! 1) =
       ''https://graph.microsoft.com/v1.0/applications/obj-1/addPassword''"
    using u by (simp add: GRAPH_BASE_def py_str_def)
  have 2: "is_add_secret (http_requests (snd (main demo_world [])) ! 1)"
    unfolding demo_run by (simp add: is_add_secret_def suffix_def)
  show ?thesis
    using demo_create demo_run_completes 1 2 by blast
qed

section \<open>The notes\<close>

text \<open>
  C1. A completed run ends with the PATCH of the created application whose body is
  \<^verbatim>\<open>{"notes": "Updated notes: now managed by CloudOps"}\<close>, followed by its confirmation.
  In every run, completed or not, a PATCH that sets \<open>notes\<close> sets it to that literal, whatever
  \<^verbatim>\<open>NOTES_TEXT\<close> holds, while the creation request carries \<^verbatim>\<open>NOTES_TEXT\<close> as its \<open>notes\<close>.
\<close>

theorem notes_update_fixed:
  "(\<forall>tr. main w [] = (Inr (), tr) \<longrightarrow>
      (\<exists>pre tok app tr1 oid. main_create_app w [] = (Inr app, tr1) \<and> getitem app ''id'' = Inr oid \<and>
         tr = pre @ [Http \<lparr>http_method = ''PATCH'',
                           url = GRAPH_BASE @ ''/applications/'' @ py_str oid,
                           headers = bearer_headers tok,
                           json_payload = Some (JObj [(''notes'',
                               JStr ''Updated notes: now managed by CloudOps'')]),
                           params = None\<rparr>,
                     Print NotesUpdated]))
   \<and> list_all (\<lambda>r. updates_notes r \<longrightarrow>
         json_payload r = Some (JObj [(''notes'', JStr ''Updated notes: now managed by CloudOps'')]))
       (http_requests (snd (main w [])))
   \<and> list_all (\<lambda>r. http_method r = ''POST'' \<and> url r = GRAPH_BASE @ ''/applications'' \<longrightarrow>
         (\<exists>kvs. json_payload r = Some (JObj kvs) \<and>
            map_of kvs ''notes'' = Some (of_opt (environ w ''NOTES_TEXT''))))
       (http_requests (snd (main w [])))"
proof (intro conjI allI impI)
  fix tr assume "main w [] = (Inr (), tr)"
  then obtain app tr1 tr2 tr3 tr4 tr5 where
    b1: "main_create_app w [] = (Inr app, tr1)"
    and b6: "main_update_internal_notes app w tr5 = (Inr (), tr)"
    by (elim main_InrE)
  from b6 obtain tok oid where "getitem app ''id'' = Inr oid"
    "tr = tr5 @ [Token (confidential_client w),
       Http \<lparr>http_method = ''PATCH'', url = GRAPH_BASE @ ''/applications/'' @ py_str oid,
         headers = bearer_headers tok,
         json_payload = Some (JObj [(''notes'', JStr ''Updated notes: now managed by CloudOps'')]),
         params = None\<rparr>,
       Print NotesUpdated]"
    by (rule main_update_internal_notes_Inr)
  then have "getitem app ''id'' = Inr oid \<and>
    tr = (tr5 @ [Token (confidential_client w)]) @ [
       Http \<lparr>http_method = ''PATCH'', url = GRAPH_BASE @ ''/applications/'' @ py_str oid,
         headers = bearer_headers tok,
         json_payload = Some (JObj [(''notes'', JStr ''Updated notes: now managed by CloudOps'')]),
         params = None\<rparr>,
       Print NotesUpdated]"
    by simp
  with b1 show "\<exists>pre tok app tr1 oid. main_create_app w [] = (Inr app, tr1) \<and>
         getitem app ''id'' = Inr oid \<and>
         tr = pre @ [Http \<lparr>http_method = ''PATCH'',
                           url = GRAPH_BASE @ ''/applications/'' @ py_str oid,
                           headers = bearer_headers tok,
                           json_payload = Some (JObj [(''notes'',
                               JStr ''Updated notes: now managed by CloudOps'')]),
                           params = None\<rparr>,
                     Print NotesUpdated]"
    by blast
next
  show "list_all (\<lambda>r. updates_notes r \<longrightarrow>
         json_payload r = Some (JObj [(''notes'', JStr ''Updated notes: now managed by CloudOps'')]))
       (http_requests (snd (main w [])))"
    by (rule emits_run, rule emits_main_requests) (simp_all add: updates_notes_def)
next
  show "list_all (\<lambda>r. http_method r = ''POST'' \<and> url r = GRAPH_BASE @ ''/applications'' \<longrightarrow>
         (\<exists>kvs. json_payload r = Some (JObj kvs) \<and>
            map_of kvs ''notes'' = Some (of_opt (environ w ''NOTES_TEXT''))))
       (http_requests (snd (main w [])))"
    by (rule emits_run, rule emits_main_requests) simp_all
qed

theorem notes_update_fixed_witness:
  "fst (main demo_world []) = Inr ()
   \<and> environ demo_world ''NOTES_TEXT'' = Some ''notes of the caller''
   \<and> (\<exists>pre. snd (main demo_world []) =
         pre @ [Http \<lparr>http_method = ''PATCH'',
                      url = ''https://graph.microsoft.com/v1.0/applications/obj-1'',
                      headers = bearer_headers (JStr ''tok''),
                      json_payload = Some (JObj [(''notes'',
                          JStr ''Updated notes: now managed by CloudOps'')]),
                      params = None\<rparr>,
                Print NotesUpdated])
   \<and> (\<exists>r \<in> set (http_requests (snd (main demo_world []))).
         updates_notes r \<and>
         json_payload r = Some (JObj [(''notes'', JStr ''Updated notes: now managed by CloudOps'')]))
   \<and> (\<exists>r \<in> set (http_requests (snd (main demo_world []))).
         http_method r = ''POST'' \<and> url r = GRAPH_BASE @ ''/applications'' \<and>
         (\<exists>kvs. json_payload r = Some (JObj kvs) \<and>
            map_of kvs ''notes'' = Some (JStr ''notes of the caller'')))"
proof -
  note inst = notes_update_fixed [of demo_world]
  have run: "main demo_world [] = (Inr (), snd (main demo_world []))"
    using demo_run_completes by (simp add: prod_eq_iff)
  have env: "environ demo_world ''NOTES_TEXT'' = Some ''notes of the caller''"
    by (simp add: demo_world_def demo_environ_def)
  from inst run obtain pre tok app tr1 oid where
    created: "main_create_app demo_world [] = (Inr app, tr1)"
    and oid: "getitem app ''id'' = Inr oid"
    and tr: "snd (main demo_world []) =
         pre @ [Http \<lparr>http_method = ''PATCH'',
                           url = GRAPH_BASE @ ''/applications/'' @ py_str oid,
                           headers = bearer_headers tok,
                           json_payload = Some (JObj [(''notes'',
                               JStr ''Updated notes: now managed by CloudOps'')]),
                           params = None\<rparr>,
                     Print NotesUpdated]"
    by blast
  have "app = JObj [(''id'', JStr ''obj-1''), (''appId'', JStr ''cli-1'')]"
    using created demo_create by simp
  then have o: "oid = JStr ''obj-1''"
    using oid by (simp add: getitem_def)
  have "last (http_requests (snd (main demo_world []))) =
      \<lparr>http_method = ''PATCH'', url = GRAPH_BASE @ ''/applications/'' @ py_str oid,
        headers = bearer_headers tok,
        json_payload = Some (JObj [(''notes'', JStr ''Updated notes: now managed by CloudOps'')]),
        params = None\<rparr>"
    unfolding tr by simp
  then have "bearer_headers tok = bearer_headers (JStr ''tok'')"
    unfolding demo_run by (simp add: bearer_headers_def py_str_def)
  then have 1: "\<exists>pre. snd (main demo_world []) =
         pre @ [Http \<lparr>http_method = ''PATCH'',
                      url = ''https://graph.microsoft.com/v1.0/applications/obj-1'',
                      headers = bearer_headers (JStr ''tok''),
                      json_payload = Some (JObj [(''notes'',
                          JStr ''Updated notes: now managed by CloudOps'')]),
                      params = None\<rparr>,
                Print NotesUpdated]"
    using tr o by (simp add: GRAPH_BASE_def py_str_def)
  let ?last = "\<lparr>http_method = ''PATCH'', url = ''https://graph.microsoft.com/v1.0/applications/obj-1'',
     headers = [(''Authorization'', ''Bearer tok''), (''Content-Type'', ''application/json'')],
     json_payload = Some (JObj [(''notes'', JStr ''Updated notes: now managed by CloudOps'')]),
     params = None\<rparr>"
  let ?first = "\<lparr>http_method = ''POST'', url = ''https://graph.microsoft.com/v1.0/applications'',
     headers = [(''Authorization'', ''Bearer tok''), (''Content-Type'', ''application/json'')],
     json_payload = Some (JObj [(''displayName'', JStr ''demo-app''),
           (''signInAudience'', JStr ''AzureADMyOrg''),
           (''web'', JObj [(''redirectUris'',
                JArr [JStr ''https://a.example/cb'', JStr ''https://b.example/cb''])]),
           (''notes'', JStr ''notes of the caller'')]),
     params = None\<rparr>"
  have mem_last: "?last \<in> set (http_requests (snd (main demo_world [])))"
    unfolding demo_run by simp
  have mem_first: "?first \<in> set (http_requests (snd (main demo_world [])))"
    unfolding demo_run by simp
  have upd: "updates_notes ?last"
    by (simp add: updates_notes_def)
  have "list_all (\<lambda>r. updates_notes r \<longrightarrow>
         json_payload r = Some (JObj [(''notes'', JStr ''Updated notes: now managed by CloudOps'')]))
       (http_requests (snd (main demo_world [])))"
    using inst by blast
  then have "json_payload ?last =
      Some (JObj [(''notes'', JStr ''Updated notes: now managed by CloudOps'')])"
    using mem_last upd unfolding list_all_iff by blast
  then have 2: "\<exists>r \<in> set (http_requests (snd (main demo_world []))).
         updates_notes r \<and>
         json_payload r = Some (JObj [(''notes'', JStr ''Updated notes: now managed by CloudOps'')])"
    using mem_last upd by blast
  have "list_all (\<lambda>r. http_method r = ''POST'' \<and> url r = GRAPH_BASE @ ''/applications'' \<longrightarrow>
         (\<exists>kvs. json_payload r = Some (JObj kvs) \<and>
            map_of kvs ''notes'' = Some (of_opt (environ demo_world ''NOTES_TEXT''))))
       (http_requests (snd (main demo_world [])))"
    using inst by blast
  then have "http_method ?first = ''POST'' \<and> url ?first = GRAPH_BASE @ ''/applications'' \<longrightarrow>
         (\<exists>kvs. json_payload ?first = Some (JObj kvs) \<and>
            map_of kvs ''notes'' = Some (of_opt (environ demo_world ''NOTES_TEXT'')))"
    using mem_first unfolding list_all_iff by (rule bspec)
  then have 3: "\<exists>r \<in> set (http_requests (snd (main demo_world []))).
         http_method r = ''POST'' \<and> url r = GRAPH_BASE @ ''/applications'' \<and>
         (\<exists>kvs. json_payload r = Some (JObj kvs) \<and>
            map_of kvs ''notes'' = Some (JStr ''notes of the caller''))"
    using mem_first env by (intro bexI [of _ ?first]) (simp_all add: GRAPH_BASE_def of_opt_def)
  show ?thesis
    using demo_run_completes env 1 2 3 by blast
qed

section \<open>The owner block\<close>

lemma step_cases:
  assumes "emits w Q m"
  obtains (fail) e evs where "m w tr = (Inl e, tr @ evs)" "list_all Q (http_requests evs)"
        | (ok) x evs where "m w tr = (Inr x, tr @ evs)" "list_all Q (http_requests evs)"
proof -
  obtain evs where evs: "snd (m w tr) = tr @ evs" "list_all Q (http_requests evs)"
    using emitsD [OF assms] by blast
  show ?thesis
  proof (cases "fst (m w tr)")
    case (Inl e)
    then have "m w tr = (Inl e, tr @ evs)" using evs(1) by (simp add: prod_eq_iff)
    then show ?thesis using evs(2) by (rule fail)
  next
    case (Inr x)
    then have "m w tr = (Inr x, tr @ evs)" using evs(1) by (simp add: prod_eq_iff)
    then show ?thesis using evs(2) by (rule ok)
  qed
qed

lemma http_requests_mem: "Http r \<in> set tr \<Longrightarrow> r \<in> set (http_requests tr)"
  by (induction tr) (auto simp: http_requests_def)

lemma prefix_before:
  assumes "prefix a (pre @ x # post)" and "x \<notin> set a"
  shows "prefix a pre"
proof -
  from assms(1) consider "prefix a pre" | us where "a = pre @ us" "prefix us (x # post)"
    unfolding prefix_append by blast
  then show ?thesis
  proof cases
    case 1
    then show ?thesis .
  next
    case 2
    then show ?thesis
      using assms(2) by (cases us) auto
  qed
qed

lemma main_first_three:
  "main = io_bind
     (io_bind main_create_app (\<lambda>app.
      io_bind (main_add_secret app) (\<lambda>_.
      io_bind (main_create_service_principal app) (\<lambda>_. io_return app))))
     (\<lambda>app. io_bind (main_resolve_and_add_owner app) (\<lambda>_.
            io_bind (main_add_api_permissions app) (\<lambda>_.
            main_update_internal_notes app)))"
  unfolding main_def
  by (rule ext, rule ext)
     (simp add: io_bind_def io_return_def split: prod.splits sum.splits)

lemma add_owner_after_resolution:
  assumes configured: "truthy (of_opt (environ w ''OWNER_MAILNICKNAME''))"
    and occurs: "snd (main w []) = pre @ Http r # post"
    and owner_request: "is_add_owner r"
  shows "\<exists>tr3 owner tr4.
      resolve_user_by_mailnickname (of_opt (environ w ''OWNER_MAILNICKNAME'')) w tr3 = (Inr owner, tr4)
      \<and> prefix tr4 pre"
proof -
  let ?nick = "of_opt (environ w ''OWNER_MAILNICKNAME'')"
  let ?Q = "\<lambda>r. \<not> is_add_owner r"
  let ?A = "io_bind main_create_app (\<lambda>app.
      io_bind (main_add_secret app) (\<lambda>_.
      io_bind (main_create_service_principal app) (\<lambda>_. io_return app)))"
  let ?K = "\<lambda>app. io_bind (main_add_api_permissions app) (\<lambda>_. main_update_internal_notes app)"
  let ?R = "\<lambda>app owner_id. io_bind (io_lift (getitem app ''id'')) (\<lambda>oid.
            io_bind (add_owner oid owner_id) (\<lambda>_.
            print (OwnerAdded (py_str ?nick) owner_id)))"
  have r_in: "Http r \<in> set (snd (main w []))"
    using occurs by simp
  have not_all: "\<not> list_all ?Q (http_requests (snd (main w [])))"
    using http_requests_mem [OF r_in] owner_request by (auto simp: list_all_iff)
  have A: "emits w ?Q ?A"
    by (intro emits_bind emits_return emits_main_create_app emits_main_add_secret
        emits_main_create_service_principal not_add_owner)
  have owner_block: "main_resolve_and_add_owner app w tr =
      io_bind (resolve_user_by_mailnickname ?nick) (?R app) w tr" for app tr
    using configured by (simp add: main_resolve_and_add_owner_def Let_def)
  have resolve: "emits w ?Q (resolve_user_by_mailnickname ?nick)"
    by (rule emits_resolve) (rule not_add_owner)
  have rest: "emits w (\<lambda>r. True) (io_bind (?R app owner) (\<lambda>_. ?K app))" for app owner
    unfolding add_owner_def Let_def
    by (intro emits_bind emits_lift emits_print emits_graph_call
        emits_main_add_api_permissions emits_main_update_internal_notes) simp_all
  from A show ?thesis
  proof (cases rule: step_cases [where tr = "[]"])
    case (fail e evs)
    then have "main w [] = (Inl e, evs)"
      by (subst main_first_three) (simp add: io_bind_Inl)
    then show ?thesis using not_all fail(2) by simp
  next
    case (ok app tr3)
    then have at3: "main w [] =
        io_bind (main_resolve_and_add_owner app) (\<lambda>_. ?K app) w tr3"
      by (subst main_first_three) (simp add: io_bind_Inr)
    from resolve show ?thesis
    proof (cases rule: step_cases [where tr = tr3])
      case (fail e evs)
      have "main_resolve_and_add_owner app w tr3 = (Inl e, tr3 @ evs)"
        unfolding owner_block using fail(1) by (rule io_bind_Inl)
      then have "main w [] = (Inl e, tr3 @ evs)"
        unfolding at3 by (rule io_bind_Inl)
      then show ?thesis using not_all ok(2) fail(2) by simp
    next
      case inner: (ok owner evs)
      let ?tr4 = "tr3 @ evs"
      have "main w [] = io_bind (?R app owner) (\<lambda>_. ?K app) w ?tr4"
        unfolding at3 using inner(1)
        by (simp add: io_bind_def owner_block)
      moreover obtain evs' where
        "snd (io_bind (?R app owner) (\<lambda>_. ?K app) w ?tr4) = ?tr4 @ evs'"
        using emitsD [OF rest, of app owner ?tr4] by blast
      ultimately have "prefix ?tr4 (pre @ Http r # post)"
        using occurs by (metis prefixI)
      moreover have "Http r \<notin> set ?tr4"
        using http_requests_mem [of r ?tr4] ok(2) inner(2) owner_request
        by (auto simp: list_all_iff)
      ultimately have "prefix ?tr4 pre"
        by (rule prefix_before)
      then show ?thesis using inner(1) by blast
    qed
  qed
qed

lemma http_requests_memD: "r \<in> set (http_requests tr) \<Longrightarrow> Http r \<in> set tr"
  by (induction tr) (auto simp: http_requests_def split: event.splits)

lemma no_owner_run_completes: "fst (main no_owner_world []) = Inr ()"
  by code_simp

lemma no_owner_unset:
  "\<not> truthy (of_opt (environ no_owner_world ''OWNER_MAILNICKNAME''))"
  by (simp add: no_owner_world_def demo_world_def truthy_def of_opt_def)

lemma demo_configured:
  "of_opt (environ demo_world ''OWNER_MAILNICKNAME'') = JStr ''jdoe''"
  "of_opt (environ no_user_world ''OWNER_MAILNICKNAME'') = JStr ''jdoe''"
  by (simp_all add: no_user_world_def demo_world_def demo_environ_def of_opt_def)

lemma no_user_resolution:
  "resolve_user_by_mailnickname (JStr ''jdoe'') no_user_world [] =
     (Inl (Exception_str (''No user found with mailNickname='jdoe'' @ [CHR 0x27])),
      [Token (confidential_client no_user_world),
       Http \<lparr>http_method = ''GET'', url = GRAPH_BASE @ ''/users'',
             headers = bearer_headers (JStr ''tok''), json_payload = None,
             params = Some [(''$filter'', user_filter (JStr ''jdoe'')),
                            (''$select'', ''id,displayName,mailNickname'')]\<rparr>])"
  using no_user_lookup
  by (simp add: resolve_user_by_mailnickname_def io_bind_def get_default_def truthy_def
      py_str_def)

lemma no_owner_run:
  "map (\<lambda>r. (http_method r, url r)) (http_requests (snd (main no_owner_world []))) =
       [(''POST'', ''https://graph.microsoft.com/v1.0/applications''),
        (''POST'', ''https://graph.microsoft.com/v1.0/applications/obj-1/addPassword''),
        (''POST'', ''https://graph.microsoft.com/v1.0/servicePrincipals''),
        (''PATCH'', ''https://graph.microsoft.com/v1.0/applications/obj-1''),
        (''PATCH'', ''https://graph.microsoft.com/v1.0/applications/obj-1'')]"
  by code_simp

text \<open>
  C6. When no owner alias is configured (the variable is unset or empty), the owner block
  does nothing but print that it is skipped, no run holds a GET request or a POST to an
  \<^verbatim>\<open>/owners/$ref\<close> URL, and a completed run made five requests in this order: create the
  application, add the secret, create the service principal, set the permissions, update
  the notes. When an alias is configured, a resolution that raises ends the owner block
  with the same exception and trace, and whenever a run holds an add-owner request, the
  resolution returned an object id at a point of the run that lies before that request.
\<close>

theorem owner_block_conditional:
  fixes w :: world
  defines "nick \<equiv> of_opt (environ w ''OWNER_MAILNICKNAME'')"
  shows "(\<not> truthy nick \<longrightarrow>
        (\<forall>app tr. main_resolve_and_add_owner app w tr = (Inr (), tr @ [Print OwnerSkipped]))
      \<and> list_all (\<lambda>r. \<not> is_resolve_owner r \<and> \<not> is_add_owner r)
           (http_requests (snd (main w [])))
      \<and> (\<forall>tr. main w [] = (Inr (), tr) \<longrightarrow>
           (\<exists>oid. map (\<lambda>r. (http_method r, url r)) (http_requests tr) =
              [(''POST'', GRAPH_BASE @ ''/applications''),
               (''POST'', GRAPH_BASE @ ''/applications/'' @ py_str oid @ ''/addPassword''),
               (''POST'', GRAPH_BASE @ ''/servicePrincipals''),
               (''PATCH'', GRAPH_BASE @ ''/applications/'' @ py_str oid),
               (''PATCH'', GRAPH_BASE @ ''/applications/'' @ py_str oid)]
            \<and> sets_permissions (http_requests tr ! 3))))
    \<and> (truthy nick \<longrightarrow>
        (\<forall>app tr e tr1. resolve_user_by_mailnickname nick w tr = (Inl e, tr1) \<longrightarrow>
            main_resolve_and_add_owner app w tr = (Inl e, tr1))
      \<and> (\<forall>pre r post. snd (main w []) = pre @ Http r # post \<and> is_add_owner r \<longrightarrow>
           (\<exists>tr3 owner tr4. resolve_user_by_mailnickname nick w tr3 = (Inr owner, tr4)
                             \<and> prefix tr4 pre)))"
proof (intro conjI allI impI)
  assume skip: "\<not> truthy nick"
  show "main_resolve_and_add_owner app w tr = (Inr (), tr @ [Print OwnerSkipped])" for app tr
    using skip unfolding nick_def by (rule main_owner_skipped)
  show "list_all (\<lambda>r. \<not> is_resolve_owner r \<and> \<not> is_add_owner r)
           (http_requests (snd (main w [])))"
    using skip unfolding nick_def
    by (intro emits_run emits_main_requests)
       (simp_all only: not_add_owner is_resolve_owner_def request.select_convs, simp_all)
  show "\<exists>oid. map (\<lambda>r. (http_method r, url r)) (http_requests tr) =
              [(''POST'', GRAPH_BASE @ ''/applications''),
               (''POST'', GRAPH_BASE @ ''/applications/'' @ py_str oid @ ''/addPassword''),
               (''POST'', GRAPH_BASE @ ''/servicePrincipals''),
               (''PATCH'', GRAPH_BASE @ ''/applications/'' @ py_str oid),
               (''PATCH'', GRAPH_BASE @ ''/applications/'' @ py_str oid)]
            \<and> sets_permissions (http_requests tr ! 3)"
    if "main w [] = (Inr (), tr)" for tr
    using that skip unfolding nick_def
    by (elim completed_run) (auto simp: sets_permissions_def)
next
  assume configured: "truthy nick"
  show "main_resolve_and_add_owner app w tr = (Inl e, tr1)"
    if "resolve_user_by_mailnickname nick w tr = (Inl e, tr1)" for app tr e tr1
    using that configured unfolding nick_def
    by (simp add: main_resolve_and_add_owner_def Let_def io_bind_def)
  show "\<exists>tr3 owner tr4. resolve_user_by_mailnickname nick w tr3 = (Inr owner, tr4)
                             \<and> prefix tr4 pre"
    if "snd (main w []) = pre @ Http r # post \<and> is_add_owner r" for pre r post
    using add_owner_after_resolution [of w pre r post] that configured
    unfolding nick_def by blast
qed

theorem owner_block_conditional_witness:
  "main_resolve_and_add_owner (JObj [(''id'', JStr ''obj-1'')]) no_owner_world [] =
     (Inr (), [Print OwnerSkipped])
   \<and> fst (main no_owner_world []) = Inr ()
   \<and> map (\<lambda>r. (http_method r, url r)) (http_requests (snd (main no_owner_world []))) =
       [(''POST'', ''https://graph.microsoft.com/v1.0/applications''),
        (''POST'', ''https://graph.microsoft.com/v1.0/applications/obj-1/addPassword''),
        (''POST'', ''https://graph.microsoft.com/v1.0/servicePrincipals''),
        (''PATCH'', ''https://graph.microsoft.com/v1.0/applications/obj-1''),
        (''PATCH'', ''https://graph.microsoft.com/v1.0/applications/obj-1'')]
   \<and> fst (main_resolve_and_add_owner (JObj [(''id'', JStr ''obj-1'')]) no_user_world []) =
       Inl (Exception_str (''No user found with mailNickname='jdoe'' @ [CHR 0x27]))
   \<and> (\<exists>r \<in> set (http_requests (snd (main demo_world []))). is_add_owner r)
   \<and> (\<exists>tr3 owner tr4.
         resolve_user_by_mailnickname (JStr ''jdoe'') demo_world tr3 = (Inr owner, tr4)
         \<and> prefix tr4 (snd (main demo_world [])))"
proof -
  note skip = owner_block_conditional [of no_owner_world]
  note conf = owner_block_conditional [of demo_world]
  note fail = owner_block_conditional [of no_user_world]
  have 1: "main_resolve_and_add_owner (JObj [(''id'', JStr ''obj-1'')]) no_owner_world [] =
     (Inr (), [Print OwnerSkipped])"
    using skip no_owner_unset by simp
  have run: "main no_owner_world [] = (Inr (), snd (main no_owner_world []))"
    using no_owner_run_completes by (simp add: prod_eq_iff)
  note skipped = skip [THEN conjunct1, THEN mp, OF no_owner_unset]
  note completed = skipped [THEN conjunct2, THEN conjunct2]
  from completed [rule_format, OF run] obtain oid where
    reqs: "map (\<lambda>r. (http_method r, url r)) (http_requests (snd (main no_owner_world []))) =
              [(''POST'', GRAPH_BASE @ ''/applications''),
               (''POST'', GRAPH_BASE @ ''/applications/'' @ py_str oid @ ''/addPassword''),
               (''POST'', GRAPH_BASE @ ''/servicePrincipals''),
               (''PATCH'', GRAPH_BASE @ ''/applications/'' @ py_str oid),
               (''PATCH'', GRAPH_BASE @ ''/applications/'' @ py_str oid)]"
    by (elim exE conjE)
  have "GRAPH_BASE @ ''/applications/'' @ py_str oid =
      ''https://graph.microsoft.com/v1.0/applications/obj-1''"
    using reqs unfolding no_owner_run by simp
  then have "py_str oid = ''obj-1''"
    by (simp add: GRAPH_BASE_def)
  then have 2: "map (\<lambda>r. (http_method r, url r)) (http_requests (snd (main no_owner_world []))) =
       [(''POST'', ''https://graph.microsoft.com/v1.0/applications''),
        (''POST'', ''https://graph.microsoft.com/v1.0/applications/obj-1/addPassword''),
        (''POST'', ''https://graph.microsoft.com/v1.0/servicePrincipals''),
        (''PATCH'', ''https://graph.microsoft.com/v1.0/applications/obj-1''),
        (''PATCH'', ''https://graph.microsoft.com/v1.0/applications/obj-1'')]"
    using reqs by (simp add: GRAPH_BASE_def)
  have 3: "fst (main_resolve_and_add_owner (JObj [(''id'', JStr ''obj-1'')]) no_user_world []) =
       Inl (Exception_str (''No user found with mailNickname='jdoe'' @ [CHR 0x27]))"
    using fail no_user_resolution by (simp add: demo_configured truthy_def)
  let ?r = "\<lparr>http_method = ''POST'',
     url = ''https://graph.microsoft.com/v1.0/applications/obj-1/owners/$ref'',
     headers = [(''Authorization'', ''Bearer tok''), (''Content-Type'', ''application/json'')],
     json_payload = Some (JObj [(''@odata.id'',
            JStr ''https://graph.microsoft.com/v1.0/directoryObjects/u-123'')]),
     params = None\<rparr>"
  have mem: "?r \<in> set (http_requests (snd (main demo_world [])))"
    unfolding demo_run by simp
  have owner: "is_add_owner ?r"
    by (simp add: is_add_owner_def suffix_def)
  from http_requests_memD [OF mem] obtain pre post where
    split: "snd (main demo_world []) = pre @ Http ?r # post"
    by (meson split_list)
  from conf split owner obtain tr3 owner tr4 where
    res: "resolve_user_by_mailnickname (JStr ''jdoe'') demo_world tr3 = (Inr owner, tr4)"
    and pre: "prefix tr4 pre"
    by (simp add: demo_configured truthy_def) blast
  have "prefix tr4 (snd (main demo_world []))"
    using pre unfolding split by (rule prefix_prefix)
  with res have 5: "\<exists>tr3 owner tr4.
         resolve_user_by_mailnickname (JStr ''jdoe'') demo_world tr3 = (Inr owner, tr4)
         \<and> prefix tr4 (snd (main demo_world []))"
    by blast
  have 4: "\<exists>r \<in> set (http_requests (snd (main demo_world []))). is_add_owner r"
    using mem owner by blast
  show ?thesis
    using 1 no_owner_run_completes 2 3 4 5 by blast
qed

end
